theory Spec2Isabelle
  imports Complex_Main "HOL-Library.Log_Nat" "HOL-Library.Char_ord"
    "HOL-Library.List_Lexorder" "HOL-Library.Product_Lexorder"
begin

section \<open>Numbers of the language\<close>

text \<open>
  Every number of the program is an IEEE 754 binary64 value. A finite one is modelled by
  the rational it denotes, and every arithmetic operation rounds its exact result to the
  nearest binary64 value, ties to the even significand (\<open>fl\<close>). \<open>expo x\<close> is the
  binary exponent of \<open>x\<close>, \<open>ulp x\<close> the spacing of binary64 values around \<open>x\<close>
  (with the subnormal spacing below \<open>2 powi - 1022\<close>). Results at or above
  \<open>2 powi 1024\<close> (Infinity) and NaN do not arise from the quantities below, which are
  collection sizes, time stamps and fixed constants.
\<close>

definition expo :: "rat \<Rightarrow> int" where
  "expo x = (let (p, q) = quotient_of \<bar>x\<bar>; k = bitlen p - bitlen q
             in if 2 powi k \<le> \<bar>x\<bar> then k else k - 1)"

definition rne :: "rat \<Rightarrow> int" where
  "rne y = (let f = \<lfloor>y\<rfloor>; r = y - of_int f
            in if r < 1 / 2 then f else if 1 / 2 < r then f + 1
               else if even f then f else f + 1)"

definition ulp :: "rat \<Rightarrow> rat" where
  "ulp x = 2 powi (max (expo x - 52) (- 1074))"

definition fl :: "rat \<Rightarrow> rat" where
  "fl x = (if x = 0 then 0 else of_int (rne (x / ulp x)) * ulp x)"

definition js_add :: "rat \<Rightarrow> rat \<Rightarrow> rat" where
  "js_add a b = fl (a + b)"

definition js_sub :: "rat \<Rightarrow> rat \<Rightarrow> rat" where
  "js_sub a b = fl (a - b)"

definition js_mul :: "rat \<Rightarrow> rat \<Rightarrow> rat" where
  "js_mul a b = fl (a * b)"

definition js_div :: "rat \<Rightarrow> rat \<Rightarrow> rat" where
  "js_div a b = fl (a / b)"

text \<open>\<open>Math.round\<close>: the nearest integer, a tie going up.\<close>

definition Math_round :: "rat \<Rightarrow> int" where
  "Math_round x = \<lfloor>x + 1 / 2\<rfloor>"

text \<open>Decimal digits of a natural number, as \<open>Number.prototype.toFixed\<close> writes them.\<close>

fun show_nat :: "nat \<Rightarrow> string" where
  "show_nat n = (if n < 10 then [''0123456789'' ! n]
                 else show_nat (n div 10) @ [''0123456789'' ! (n mod 10)])"

text \<open>A number of tenths written with one digit after the point.\<close>

definition decimal1 :: "nat \<Rightarrow> string" where
  "decimal1 n = show_nat (n div 10) @ ''.'' @ show_nat (n mod 10)"

text \<open>
  \<open>x.toFixed(1)\<close> for \<open>\<bar>x\<bar> < 10 ^ 21\<close> (beyond that the language switches to
  exponent notation, which no value here reaches): the integer \<open>n\<close> with \<open>n / 10\<close>
  nearest to the exact value of \<open>x\<close>, the larger one at a tie, written with one digit
  after the point; a negative \<open>x\<close> is written as its absolute value after a minus sign.
\<close>

definition toFixed1 :: "rat \<Rightarrow> string" where
  "toFixed1 x = (if x < 0 then ''-'' else []) @ decimal1 (nat \<lfloor>\<bar>x\<bar> * 10 + 1 / 2\<rfloor>)"

section \<open>Time\<close>

text \<open>
  A \<open>Date\<close> is its time value, an integer number of milliseconds since the epoch.

  The local time zone of the process is a table of its offsets from UTC, in milliseconds
  east: \<open>initial\<close> is in force before the first transition, and each transition
  \<open>(T, off)\<close>, listed by ascending instant, puts \<open>off\<close> in force from the
  instant \<open>T\<close> on. A zone without daylight saving has no transition.
\<close>

type_synonym ms = int

definition msPerDay :: int where
  "msPerDay = 86400000"

record timezone =
  initial :: int
  transitions :: "(ms \<times> int) list"

fun offset_from :: "int \<Rightarrow> (ms \<times> int) list \<Rightarrow> ms \<Rightarrow> int" where
  "offset_from off [] t = off"
| "offset_from off ((T, off') # rest) t = (if t < T then off else offset_from off' rest t)"

definition offset_at :: "timezone \<Rightarrow> ms \<Rightarrow> int" where
  "offset_at z t = offset_from (initial z) (transitions z) t"

text \<open>\<open>LocalTime(t)\<close>: the reading of the local clock at the instant \<open>t\<close>.\<close>

definition LocalTime :: "timezone \<Rightarrow> ms \<Rightarrow> int" where
  "LocalTime z t = t + offset_at z t"

text \<open>
  The instants at which the local clock reads \<open>l\<close>: none when \<open>l\<close> is skipped by
  a forward transition, two when it is repeated by a backward one. An instant that
  reads \<open>l\<close> is \<open>l\<close> less one of the offsets of the zone.
\<close>

definition possibleInstants :: "timezone \<Rightarrow> int \<Rightarrow> ms list" where
  "possibleInstants z l =
     filter (\<lambda>i. LocalTime z i = l) (map (\<lambda>off. l - off) (initial z # map snd (transitions z)))"

text \<open>The last reading of the local clock before each transition.\<close>

fun last_locals :: "int \<Rightarrow> (ms \<times> int) list \<Rightarrow> int list" where
  "last_locals off [] = []"
| "last_locals off ((T, off') # rest) = (T - 1 + off) # last_locals off' rest"

text \<open>
  \<open>UTC(l)\<close>, the instant of a local reading: the earliest of the instants that read
  \<open>l\<close>; and for a skipped \<open>l\<close>, \<open>l\<close> less the offset at the last instant of the
  latest earlier reading that is not skipped, which is the offset in force before the
  transition.
\<close>

definition UTC :: "timezone \<Rightarrow> int \<Rightarrow> ms" where
  "UTC z l =
     (case possibleInstants z l of
        i # rest \<Rightarrow> l - offset_at z (foldr min rest i)
      | [] \<Rightarrow>
          (case filter (\<lambda>b. b < l \<and> possibleInstants z b \<noteq> [])
                  (last_locals (initial z) (transitions z)) of
             b # bs \<Rightarrow>
               (case possibleInstants z (foldr max bs b) of
                  j # js \<Rightarrow> l - offset_at z (foldr max js j)
                | [] \<Rightarrow> l - offset_at z l)
           | [] \<Rightarrow> l - offset_at z l))"

text \<open>
  The reading \<open>00:00:00.000\<close> of the local day of the instant \<open>t\<close>,
  \<open>MakeDate(Day(LocalTime(t)), 0)\<close>.
\<close>

definition midnight_reading :: "timezone \<Rightarrow> ms \<Rightarrow> int" where
  "midnight_reading z t = (LocalTime z t div msPerDay) * msPerDay"

text \<open>
  \<open>setHours(0, 0, 0, 0)\<close> moves a date to the instant of \<open>00:00:00.000\<close> of its local
  day and returns the new time value.
\<close>

definition setHours0 :: "timezone \<Rightarrow> ms \<Rightarrow> ms" where
  "setHours0 z t = UTC z (midnight_reading z t)"

section \<open>Values\<close>

text \<open>
  \<open>json\<close> is what \<open>JSON.parse\<close> yields and what a free-form document field holds.
  An object lists its own properties, each key once.
\<close>

datatype json =
    JNull
  | JBool bool
  | JNum rat
  | JStr string
  | JArr "json list"
  | JObj "(string \<times> json) list"

datatype error =
    SyntaxError
  | TypeError
  | StoreError string
  | NotFound string string

text \<open>
  The tree a handler passes to \<open>JSON.stringify\<close>. \<open>Iso t\<close> is the string
  \<open>toISOString()\<close> gives for the instant \<open>t\<close>, \<open>Message e\<close> the \<open>message\<close> of the
  exception \<open>e\<close>, \<open>Echo v\<close> a value taken over from a request or a document.
\<close>

datatype out =
    Null
  | Bool bool
  | Num rat
  | Str string
  | Iso ms
  | Message error
  | Echo json
  | Array "out list"
  | Object "(string \<times> out) list"

text \<open>Truthiness, and \<open>a || b\<close> on the shapes the handlers use it on.\<close>

fun truthy :: "json \<Rightarrow> bool" where
  "truthy JNull = False"
| "truthy (JBool b) = b"
| "truthy (JNum x) = (x \<noteq> 0)"
| "truthy (JStr s) = (s \<noteq> [])"
| "truthy (JArr xs) = True"
| "truthy (JObj kvs) = True"

definition or_json :: "json option \<Rightarrow> json \<Rightarrow> json" where
  "or_json v d = (case v of None \<Rightarrow> d | Some x \<Rightarrow> if truthy x then x else d)"

definition or_str :: "string option \<Rightarrow> string \<Rightarrow> string" where
  "or_str v d = (case v of None \<Rightarrow> d | Some s \<Rightarrow> if s \<noteq> [] then s else d)"

definition or_num :: "rat option \<Rightarrow> rat \<Rightarrow> rat" where
  "or_num v d = (case v of None \<Rightarrow> d | Some x \<Rightarrow> if x \<noteq> 0 then x else d)"

text \<open>
  Reading one of the properties \<open>name\<close>, \<open>description\<close>, \<open>trigger\<close>, \<open>steps\<close>,
  \<open>command\<close> of a parsed value: \<open>null\<close> throws, an object gives its own property, any
  other value gives \<open>undefined\<close> (\<open>None\<close>).
\<close>

fun get_prop :: "json \<Rightarrow> string \<Rightarrow> error + json option" where
  "get_prop JNull k = Inl TypeError"
| "get_prop (JObj kvs) k = Inr (map_of kvs k)"
| "get_prop v k = Inr None"

text \<open>
  The request body as the platform hands it over. \<open>Absent\<close> is a falsy body
  (\<open>undefined\<close>, \<open>null\<close> or the empty string). A non-empty text comes with what the
  built-in \<open>JSON.parse\<close> does on it: it throws (\<open>Malformed\<close>) or yields a value.
\<close>

datatype request_body = Absent | Malformed | Parsed json

definition parse_body :: "request_body \<Rightarrow> error + json" where
  "parse_body b = (case b of Absent \<Rightarrow> Inr (JObj []) | Malformed \<Rightarrow> Inl SyntaxError
                   | Parsed v \<Rightarrow> Inr v)"

section \<open>The document store\<close>

text \<open>
  The documents of the four collections, with the fields and types of the specification's
  data model; every field may be missing. The free-form fields of a workflow hold whatever
  value a request supplied.
\<close>

record agent_metrics =
  uptime_hours :: "rat option"
  tasks_completed :: "rat option"
  error_rate :: "rat option"

record agent =
  version :: "string option"
  description :: "string option"
  last_heartbeat :: "ms option"
  capabilities :: "string list option"
  metrics :: "agent_metrics option"

record lead =
  lead_created :: "ms option"
  lead_status :: "string option"
  lead_score :: "rat option"

record alert =
  severity :: "string option"
  message :: "string option"
  agent_id :: "string option"
  timestamp :: "ms option"
  resolved :: "bool option"
  resolved_at :: "ms option"
  resolved_by :: "string option"

record workflow =
  wf_name :: "json option"
  wf_description :: "json option"
  wf_trigger :: "json option"
  wf_steps :: "json option"
  wf_status :: "string option"
  wf_created :: "ms option"
  wf_created_by :: "string option"
  wf_completed_today :: "rat option"

text \<open>The calls the handlers make on the store, as they are logged in \<open>issued\<close>.\<close>

datatype clause =
    WhereTimeGe string ms
  | WhereStrEq string string
  | WhereBoolEq string bool
  | OrderByDesc string
  | Limit nat

datatype op =
    Query string "clause list"
  | Update string string bool ms string
  | Add string workflow

text \<open>
  A collection is the list of its documents with their ids. \<open>rejects\<close> is the store's
  own failure on a call (unreachable, missing index, invalid data), with its message.
\<close>

record world =
  agents :: "(string \<times> agent) list"
  leads :: "(string \<times> lead) list"
  alerts :: "(string \<times> alert) list"
  workflows :: "(string \<times> workflow) list"
  issued :: "op list"
  rejects :: "op \<Rightarrow> string option"

type_synonym 'a prog = "world \<Rightarrow> (error + 'a) \<times> world"

definition seq :: "'a prog \<Rightarrow> ('a \<Rightarrow> 'b prog) \<Rightarrow> 'b prog" where
  "seq m f w = (case m w of (Inl e, w') \<Rightarrow> (Inl e, w') | (Inr a, w') \<Rightarrow> f a w')"

definition ret :: "'a \<Rightarrow> 'a prog" where
  "ret a w = (Inr a, w)"

definition lift :: "error + 'a \<Rightarrow> 'a prog" where
  "lift r w = (r, w)"

definition store_read :: "op \<Rightarrow> (world \<Rightarrow> 'a) \<Rightarrow> 'a prog" where
  "store_read q answer w =
     (let w' = w\<lparr>issued := issued w @ [q]\<rparr>
      in case rejects w q of Some m \<Rightarrow> (Inl (StoreError m), w') | None \<Rightarrow> (Inr (answer w), w'))"

definition get_agents :: "(string \<times> agent) list prog" where
  "get_agents = store_read (Query ''prometheus_agents'' []) agents"

definition get_leads :: "(string \<times> lead) list prog" where
  "get_leads = store_read (Query ''leads'' []) leads"

definition leads_created_since :: "ms \<Rightarrow> (string \<times> lead) list prog" where
  "leads_created_since t =
     store_read (Query ''leads'' [WhereTimeGe ''created'' t])
       (\<lambda>w. filter (\<lambda>(i, d). case lead_created d of None \<Rightarrow> False | Some c \<Rightarrow> t \<le> c) (leads w))"

definition leads_with_status :: "string \<Rightarrow> (string \<times> lead) list prog" where
  "leads_with_status s =
     store_read (Query ''leads'' [WhereStrEq ''status'' s])
       (\<lambda>w. filter (\<lambda>(i, d). lead_status d = Some s) (leads w))"

text \<open>
  Unresolved alerts, newest first, at most 50: the store leaves out a document without
  the ordering field and breaks ties by document id in the same direction.
\<close>

definition active_alerts :: "(string \<times> alert) list prog" where
  "active_alerts =
     store_read (Query ''system_alerts''
                   [WhereBoolEq ''resolved'' False, OrderByDesc ''timestamp'', Limit 50])
       (\<lambda>w. take 50 (rev (sort_key (\<lambda>(i, d). (case timestamp d of None \<Rightarrow> 0 | Some t \<Rightarrow> t, i))
               (filter (\<lambda>(i, d). resolved d = Some False \<and> timestamp d \<noteq> None) (alerts w)))))"

definition get_workflows :: "(string \<times> workflow) list prog" where
  "get_workflows = store_read (Query ''workflows'' []) workflows"

text \<open>\<open>update\<close> fails on a document that does not exist.\<close>

definition update_alert :: "string \<Rightarrow> bool \<Rightarrow> ms \<Rightarrow> string \<Rightarrow> unit prog" where
  "update_alert alertId r when who w =
     (let q = Update ''system_alerts'' alertId r when who; w' = w\<lparr>issued := issued w @ [q]\<rparr>
      in case rejects w q of
           Some m \<Rightarrow> (Inl (StoreError m), w')
         | None \<Rightarrow>
             if alertId \<in> fst ` set (alerts w)
             then (Inr (), w'\<lparr>alerts := map (\<lambda>(i, d). if i = alertId
                      then (i, d\<lparr>resolved := Some r, resolved_at := Some when, resolved_by := Some who\<rparr>)
                      else (i, d)) (alerts w)\<rparr>)
             else (Inl (NotFound ''system_alerts'' alertId), w'))"

text \<open>\<open>add\<close> stores the document under the id the store generates, and returns the id.\<close>

definition add_workflow :: "string \<Rightarrow> workflow \<Rightarrow> string prog" where
  "add_workflow new_id d w =
     (let q = Add ''workflows'' d; w' = w\<lparr>issued := issued w @ [q]\<rparr>
      in case rejects w q of
           Some m \<Rightarrow> (Inl (StoreError m), w')
         | None \<Rightarrow> (Inr new_id, w'\<lparr>workflows := workflows w @ [(new_id, d)]\<rparr>))"

section \<open>Responses\<close>

datatype body = Raw string | Json out

record response =
  statusCode :: nat
  headers :: "(string \<times> string) list"
  body :: body

definition cors :: "(string \<times> string) list" where
  "cors = [(''Access-Control-Allow-Origin'', ''*''),
           (''Access-Control-Allow-Headers'', ''Content-Type, Authorization''),
           (''Access-Control-Allow-Methods'', ''GET, POST, PUT, DELETE, OPTIONS''),
           (''Content-Type'', ''application/json'')]"

definition ok :: "(string \<times> out) list \<Rightarrow> response" where
  "ok kvs = \<lparr>statusCode = 200, headers = cors,
                body = Json (Object ((''success'', Bool True) # kvs))\<rparr>"

definition failed :: "error \<Rightarrow> response" where
  "failed e = \<lparr>statusCode = 500, headers = cors,
               body = Json (Object [(''success'', Bool False), (''error'', Message e)])\<rparr>"

text \<open>The \<open>try\<close> block of a handler with its \<open>catch\<close>.\<close>

definition try_catch :: "(string \<times> out) list prog \<Rightarrow> world \<Rightarrow> response \<times> world" where
  "try_catch p w = (case p w of (Inl e, w') \<Rightarrow> (failed e, w') | (Inr kvs, w') \<Rightarrow> (ok kvs, w'))"

text \<open>What the runtime supplies to one invocation: the clock, the time zone, a fresh id.\<close>

record env =
  clock :: ms
  zone :: timezone
  fresh_id :: string

section \<open>The handlers\<close>

subsection \<open>handleGetAgents\<close>

text \<open>
  The status of an agent, from the time of the call and the last heartbeat. Of the shaped
  record all fields are modelled but \<open>name\<close> (the id with its first letter in upper case).
\<close>

definition agent_status :: "ms \<Rightarrow> ms \<Rightarrow> string" where
  "agent_status now lastHeartbeat =
     (let timeSinceHeartbeat = js_div (js_sub (of_int now) (of_int lastHeartbeat)) 1000
      in if 300 < timeSinceHeartbeat then ''offline''
         else if 60 < timeSinceHeartbeat then ''degraded''
         else ''healthy'')"

definition metric :: "(agent_metrics \<Rightarrow> rat option) \<Rightarrow> agent \<Rightarrow> rat option" where
  "metric f data = (case metrics data of None \<Rightarrow> None | Some m \<Rightarrow> f m)"

definition metrics_out :: "agent_metrics option \<Rightarrow> out" where
  "metrics_out m =
     (case m of None \<Rightarrow> Object []
      | Some x \<Rightarrow> Object
          ((case uptime_hours x of None \<Rightarrow> [] | Some v \<Rightarrow> [(''uptime_hours'', Num v)]) @
           (case tasks_completed x of None \<Rightarrow> [] | Some v \<Rightarrow> [(''tasks_completed'', Num v)]) @
           (case error_rate x of None \<Rightarrow> [] | Some v \<Rightarrow> [(''error_rate'', Num v)])))"

definition shape_agent :: "ms \<Rightarrow> string \<Rightarrow> agent \<Rightarrow> out" where
  "shape_agent now agentId data =
     (let lastHeartbeat = (case last_heartbeat data of None \<Rightarrow> now | Some t \<Rightarrow> t)
      in Object
          [(''id'', Str agentId),
           (''version'', Str (or_str (version data) ''1.0.0'')),
           (''status'', Str (agent_status now lastHeartbeat)),
           (''description'', Str (or_str (description data) (agentId @ '' Agent''))),
           (''uptime'', Str (toFixed1 (or_num (metric uptime_hours data) 0) @ '' hours'')),
           (''tasksCompleted'', Num (or_num (metric tasks_completed data) 0)),
           (''errorRate'', Num (or_num (metric error_rate data) 0)),
           (''lastHeartbeat'', Iso lastHeartbeat),
           (''capabilities'',
              Array (map Str (case capabilities data of None \<Rightarrow> [] | Some cs \<Rightarrow> cs))),
           (''metrics'', metrics_out (metrics data))])"

definition handleGetAgents :: "env \<Rightarrow> world \<Rightarrow> response \<times> world" where
  "handleGetAgents e =
     try_catch (seq get_agents (\<lambda>agentsSnapshot. ret
       [(''agents'', Object (map (\<lambda>(agentId, data). (agentId, shape_agent (clock e) agentId data))
                               agentsSnapshot)),
        (''timestamp'', Iso (clock e))]))"

subsection \<open>handleAgentCommand\<close>

definition handleAgentCommand :: "string \<Rightarrow> request_body \<Rightarrow> world \<Rightarrow> response \<times> world" where
  "handleAgentCommand agentId b =
     try_catch (seq (lift (parse_body b)) (\<lambda>command.
       seq (lift (get_prop command ''command'')) (\<lambda>c. ret
         ((''message'', Str (''Command sent to '' @ agentId)) #
          (case c of None \<Rightarrow> [] | Some v \<Rightarrow> [(''command'', Echo v)])))))"

subsection \<open>handleGetLeadMetrics\<close>

definition hot_count :: "(string \<times> lead) list \<Rightarrow> nat" where
  "hot_count allLeadsSnapshot =
     length (filter (\<lambda>(i, data). case lead_score data of None \<Rightarrow> False | Some s \<Rightarrow> fl (8 / 10) < s)
               allLeadsSnapshot)"

definition conversion_rate :: "nat \<Rightarrow> nat \<Rightarrow> rat" where
  "conversion_rate converted totalLeads =
     (if 0 < totalLeads then js_mul (js_div (of_nat converted) (of_nat totalLeads)) 100 else 0)"

text \<open>\<open>setHours\<close> changes \<open>now\<close> itself, so \<open>now\<close> and \<open>todayStart\<close> are the same instant.\<close>

definition handleGetLeadMetrics :: "env \<Rightarrow> world \<Rightarrow> response \<times> world" where
  "handleGetLeadMetrics e =
     (let now = setHours0 (zone e) (clock e); todayStart = now
      in try_catch
          (seq get_leads (\<lambda>allLeadsSnapshot.
           seq (leads_created_since todayStart) (\<lambda>todayLeadsSnapshot.
           seq (leads_with_status ''PENDING_RESEARCH'') (\<lambda>pendingSnapshot.
           seq (leads_with_status ''CONVERTED'') (\<lambda>convertedSnapshot.
           let totalLeads = length allLeadsSnapshot;
               conversionRate = conversion_rate (length convertedSnapshot) totalLeads
           in ret
             [(''metrics'', Object
                 [(''total'', Num (of_nat totalLeads)),
                  (''today'', Num (of_nat (length todayLeadsSnapshot))),
                  (''pending'', Num (of_nat (length pendingSnapshot))),
                  (''hot'', Num (of_nat (hot_count allLeadsSnapshot))),
                  (''conversionRate'', Str (toFixed1 conversionRate))]),
              (''timestamp'', Iso now)]))))))"

subsection \<open>handleGetAlerts\<close>

definition shape_alert :: "ms \<Rightarrow> string \<Rightarrow> alert \<Rightarrow> out" where
  "shape_alert now i data =
     Object
       ([(''id'', Str i), (''severity'', Str (or_str (severity data) ''info''))] @
        (case message data of None \<Rightarrow> [] | Some m \<Rightarrow> [(''message'', Str m)]) @
        [(''agent'', Str (or_str (agent_id data) ''system'')),
         (''timestamp'', Iso (case timestamp data of None \<Rightarrow> now | Some t \<Rightarrow> t))])"

definition severity_count :: "string \<Rightarrow> (string \<times> alert) list \<Rightarrow> nat" where
  "severity_count s docs = length (filter (\<lambda>(i, data). or_str (severity data) ''info'' = s) docs)"

definition handleGetAlerts :: "env \<Rightarrow> world \<Rightarrow> response \<times> world" where
  "handleGetAlerts e =
     try_catch (seq active_alerts (\<lambda>alertsSnapshot. ret
       [(''alerts'', Array (map (\<lambda>(i, data). shape_alert (clock e) i data) alertsSnapshot)),
        (''summary'', Object
           [(''total'', Num (of_nat (length alertsSnapshot))),
            (''critical'', Num (of_nat (severity_count ''critical'' alertsSnapshot))),
            (''warning'', Num (of_nat (severity_count ''warning'' alertsSnapshot))),
            (''info'', Num (of_nat (severity_count ''info'' alertsSnapshot)))])]))"

subsection \<open>handleResolveAlert\<close>

definition handleResolveAlert :: "env \<Rightarrow> string \<Rightarrow> world \<Rightarrow> response \<times> world" where
  "handleResolveAlert e alertId =
     try_catch (seq (update_alert alertId True (clock e) ''dashboard_user'') (\<lambda>u. ret
       [(''message'', Str (''Alert '' @ alertId @ '' resolved''))]))"

subsection \<open>handleGetWorkflows\<close>

text \<open>\<open>data.steps?.length || 0\<close> on a free-form \<open>steps\<close> field.\<close>

definition steps_length :: "json option \<Rightarrow> out" where
  "steps_length v =
     (case v of
        Some (JArr xs) \<Rightarrow> Num (of_nat (length xs))
      | Some (JStr s) \<Rightarrow> Num (of_nat (length s))
      | Some (JObj kvs) \<Rightarrow> Echo (or_json (map_of kvs ''length'') (JNum 0))
      | _ \<Rightarrow> Num 0)"

definition shape_workflow :: "string \<Rightarrow> workflow \<Rightarrow> out" where
  "shape_workflow i data =
     Object
       [(''id'', Str i),
        (''name'', Echo (or_json (wf_name data) (JStr ''Unnamed Workflow''))),
        (''status'', Str (or_str (wf_status data) ''inactive'')),
        (''steps'', steps_length (wf_steps data)),
        (''completedToday'', Num (or_num (wf_completed_today data) 0)),
        (''created'', (case wf_created data of None \<Rightarrow> Null | Some t \<Rightarrow> Iso t))]"

definition handleGetWorkflows :: "world \<Rightarrow> response \<times> world" where
  "handleGetWorkflows =
     try_catch (seq get_workflows (\<lambda>workflowsSnapshot. ret
       [(''workflows'', Array (map (\<lambda>(i, data). shape_workflow i data) workflowsSnapshot))]))"

subsection \<open>handleCreateWorkflow\<close>

text \<open>The document the handler builds from the four properties it reads.\<close>

definition new_workflow ::
  "ms \<Rightarrow> json option \<Rightarrow> json option \<Rightarrow> json option \<Rightarrow> json option \<Rightarrow> workflow" where
  "new_workflow created n d t s =
     \<lparr>wf_name = Some (or_json n (JStr ''New Workflow'')),
      wf_description = Some (or_json d (JStr [])),
      wf_trigger = Some (or_json t (JStr ''manual'')),
      wf_steps = Some (or_json s (JArr [])),
      wf_status = Some ''active'',
      wf_created = Some created,
      wf_created_by = Some ''dashboard_user'',
      wf_completed_today = Some 0\<rparr>"

definition handleCreateWorkflow :: "env \<Rightarrow> request_body \<Rightarrow> world \<Rightarrow> response \<times> world" where
  "handleCreateWorkflow e b =
     try_catch
       (seq (lift (parse_body b)) (\<lambda>workflowData.
        seq (lift (get_prop workflowData ''name'')) (\<lambda>n.
        seq (lift (get_prop workflowData ''description'')) (\<lambda>d.
        seq (lift (get_prop workflowData ''trigger'')) (\<lambda>t.
        seq (lift (get_prop workflowData ''steps'')) (\<lambda>s.
        let workflow = new_workflow (clock e) n d t s
        in seq (add_workflow (fresh_id e) workflow) (\<lambda>docRef_id. ret
             [(''workflow_id'', Str docRef_id),
              (''message'', Str ''Workflow created successfully'')])))))))"

subsection \<open>handleCalculateROI\<close>

definition handleCalculateROI :: "world \<Rightarrow> response \<times> world" where
  "handleCalculateROI =
     try_catch
       (seq get_agents (\<lambda>agentsSnapshot.
        seq get_leads (\<lambda>totalLeadsSnapshot.
        seq (leads_with_status ''CONVERTED'') (\<lambda>convertedSnapshot.
        let agentsCount = length agentsSnapshot;
            totalLeads = length totalLeadsSnapshot;
            convertedLeads = length convertedSnapshot;
            tasksCompleted = 50000;
            timesSavedHours = js_mul tasksCompleted (fl (83 / 1000));
            annualTimeSavings = js_mul (js_mul timesSavedHours 75) 12;
            conversionRate = (if 0 < totalLeads
                              then js_div (of_nat convertedLeads) (of_nat totalLeads)
                              else fl (15 / 100));
            annualLeadRevenue = js_mul (js_mul (of_nat convertedLeads) 5000) 12;
            totalROI = js_add annualTimeSavings annualLeadRevenue
        in ret
          [(''roi'', Object
              [(''agents_deployed'', Num (of_nat agentsCount)),
               (''total_leads_processed'', Num (of_nat totalLeads)),
               (''leads_converted'', Num (of_nat convertedLeads)),
               (''conversion_rate'', Str (toFixed1 (js_mul conversionRate 100))),
               (''time_saved_hours_annual'', Num (of_int (Math_round (js_mul timesSavedHours 12)))),
               (''cost_savings_annual'', Num (of_int (Math_round annualTimeSavings))),
               (''revenue_from_leads_annual'', Num (of_int (Math_round annualLeadRevenue))),
               (''total_roi_annual'', Num (of_int (Math_round totalROI))),
               (''roi_multiple'', Str (toFixed1 (js_div totalROI 50000)))])]))))"

section \<open>The router\<close>

record event =
  httpMethod :: string
  path :: string
  req_body :: request_body

text \<open>\<open>s.replace(pat, rep)\<close> with a string pattern: the first occurrence only.\<close>

fun replace_first :: "string \<Rightarrow> string \<Rightarrow> string \<Rightarrow> string" where
  "replace_first pat rep [] = (if pat = [] then rep else [])"
| "replace_first pat rep (c # cs) =
     (if take (length pat) (c # cs) = pat then rep @ drop (length pat) (c # cs)
      else c # replace_first pat rep cs)"

fun split :: "char \<Rightarrow> string \<Rightarrow> string list" where
  "split sep [] = [] # []"
| "split sep (c # cs) =
     (if c = sep then [] # split sep cs
      else (case split sep cs of [] \<Rightarrow> [c] # [] | x # xs \<Rightarrow> (c # x) # xs))"

definition segments_of :: "string \<Rightarrow> string list" where
  "segments_of p =
     filter (\<lambda>s. s \<noteq> []) (split (CHR ''/'') (replace_first ''/.netlify/functions/api'' [] p))"

text \<open>\<open>segments[k]\<close>: \<open>undefined\<close> (\<open>None\<close>) past the end.\<close>

definition seg :: "string list \<Rightarrow> nat \<Rightarrow> string option" where
  "seg segments k = (if k < length segments then Some (segments ! k) else None)"

datatype route =
    GetAgents
  | AgentCommand string
  | GetLeadMetrics
  | GetAlerts
  | ResolveAlert string
  | GetWorkflows
  | CreateWorkflow
  | CalculateROI
  | NoRoute

text \<open>
  The cases of the \<open>switch\<close>, in its order; the first that holds is taken.
  \<open>!segments[1]\<close> holds of a missing segment and of an empty one.
\<close>

definition select :: "string \<Rightarrow> string list \<Rightarrow> route" where
  "select m segments =
     (if m = ''GET'' \<and> seg segments 0 = Some ''agents'' \<and>
         (seg segments 1 = None \<or> seg segments 1 = Some [])
        then GetAgents
      else if m = ''POST'' \<and> seg segments 0 = Some ''agents'' \<and> seg segments 2 = Some ''command''
        then AgentCommand (segments ! 1)
      else if m = ''GET'' \<and> seg segments 0 = Some ''leads'' \<and> seg segments 1 = Some ''metrics''
        then GetLeadMetrics
      else if m = ''GET'' \<and> seg segments 0 = Some ''alerts'' \<and> seg segments 1 = Some ''active''
        then GetAlerts
      else if m = ''POST'' \<and> seg segments 0 = Some ''alerts'' \<and> seg segments 2 = Some ''resolve''
        then ResolveAlert (segments ! 1)
      else if m = ''GET'' \<and> seg segments 0 = Some ''workflows'' then GetWorkflows
      else if m = ''POST'' \<and> seg segments 0 = Some ''workflows'' then CreateWorkflow
      else if m = ''POST'' \<and> seg segments 0 = Some ''roi'' \<and> seg segments 1 = Some ''calculate''
        then CalculateROI
      else NoRoute)"

text \<open>
  The exported handler. Every handler catches what it throws, so the router's own
  \<open>catch\<close> is never entered and is left out.
\<close>

definition handler :: "env \<Rightarrow> event \<Rightarrow> world \<Rightarrow> response \<times> world" where
  "handler e event w =
     (if httpMethod event = ''OPTIONS''
      then (\<lparr>statusCode = 200, headers = cors, body = Raw []\<rparr>, w)
      else case select (httpMethod event) (segments_of (path event)) of
             GetAgents \<Rightarrow> handleGetAgents e w
           | AgentCommand i \<Rightarrow> handleAgentCommand i (req_body event) w
           | GetLeadMetrics \<Rightarrow> handleGetLeadMetrics e w
           | GetAlerts \<Rightarrow> handleGetAlerts e w
           | ResolveAlert i \<Rightarrow> handleResolveAlert e i w
           | GetWorkflows \<Rightarrow> handleGetWorkflows w
           | CreateWorkflow \<Rightarrow> handleCreateWorkflow e (req_body event) w
           | CalculateROI \<Rightarrow> handleCalculateROI w
           | NoRoute \<Rightarrow>
               (\<lparr>statusCode = 404, headers = cors,
                 body = Json (Object [(''error'', Str ''Endpoint not found'')])\<rparr>, w))"

section \<open>The route table of the specification\<close>

text \<open>
  The table of the specification's external interface: a method and a path pattern, a
  pattern being a list of fixed segments and parameters. A request matches an entry when
  the methods are equal and the segments fit the pattern one for one.
\<close>

datatype pattern = Fixed string | Param

definition spec_route_table :: "(string \<times> pattern list) list" where
  "spec_route_table =
     [(''GET'', [Fixed ''agents'']),
      (''POST'', [Fixed ''agents'', Param, Fixed ''command'']),
      (''GET'', [Fixed ''leads'', Fixed ''metrics'']),
      (''GET'', [Fixed ''alerts'', Fixed ''active'']),
      (''POST'', [Fixed ''alerts'', Param, Fixed ''resolve'']),
      (''GET'', [Fixed ''workflows'']),
      (''POST'', [Fixed ''workflows'']),
      (''POST'', [Fixed ''roi'', Fixed ''calculate''])]"

fun fits :: "pattern list \<Rightarrow> string list \<Rightarrow> bool" where
  "fits [] [] = True"
| "fits (Fixed a # ps) (s # ss) = (a = s \<and> fits ps ss)"
| "fits (Param # ps) (s # ss) = fits ps ss"
| "fits ps ss = False"

definition spec_matches :: "string \<Rightarrow> string list \<Rightarrow> bool" where
  "spec_matches m segments = list_ex (\<lambda>(m', ps). m = m' \<and> fits ps segments) spec_route_table"

text \<open>
  The same table read loosely: an entry other than the first also matches a path that
  goes on after its pattern.
\<close>

definition loose_matches :: "string \<Rightarrow> string list \<Rightarrow> bool" where
  "loose_matches m segments =
     (spec_matches m segments \<or>
      list_ex (\<lambda>(m', ps). m = m' \<and> length ps \<le> length segments \<and> fits ps (take (length ps) segments))
        (tl spec_route_table))"


section \<open>Reading a response\<close>

text \<open>The value of a key in an object of a response.\<close>

fun field :: "string \<Rightarrow> out \<Rightarrow> out option" where
  "field k (Object kvs) = map_of kvs k"
| "field k v = None"

definition body_field :: "string \<Rightarrow> response \<Rightarrow> out option" where
  "body_field k r = (case body r of Json v \<Rightarrow> field k v | Raw s \<Rightarrow> None)"

text \<open>The status of every agent of a listing, by id.\<close>

definition agent_statuses :: "response \<Rightarrow> (string \<times> out option) list" where
  "agent_statuses r =
     (case body_field ''agents'' r of
        Some (Object listing) \<Rightarrow> map (\<lambda>(i, shaped). (i, field ''status'' shaped)) listing
      | _ \<Rightarrow> [])"

definition body_field2 :: "string \<Rightarrow> string \<Rightarrow> response \<Rightarrow> out option" where
  "body_field2 k1 k2 r = (case body_field k1 r of None \<Rightarrow> None | Some v \<Rightarrow> field k2 v)"

text \<open>A computation that changes nothing in the store and only adds to the log of calls.\<close>

definition reads_only :: "(world \<Rightarrow> 'a \<times> world) \<Rightarrow> bool" where
  "reads_only m = (\<forall>w. \<exists>ops. snd (m w) = w\<lparr>issued := issued w @ ops\<rparr>)"

text \<open>The store fails on none of the calls of a list.\<close>

definition accepts :: "world \<Rightarrow> op list \<Rightarrow> bool" where
  "accepts w qs = list_all (\<lambda>q. rejects w q = None) qs"

text \<open>The store calls of the lead metrics handler and of the ROI handler, in their order.\<close>

definition lead_queries :: "ms \<Rightarrow> op list" where
  "lead_queries todayStart =
     [Query ''leads'' [],
      Query ''leads'' [WhereTimeGe ''created'' todayStart],
      Query ''leads'' [WhereStrEq ''status'' ''PENDING_RESEARCH''],
      Query ''leads'' [WhereStrEq ''status'' ''CONVERTED'']]"

definition roi_queries :: "op list" where
  "roi_queries =
     [Query ''prometheus_agents'' [],
      Query ''leads'' [],
      Query ''leads'' [WhereStrEq ''status'' ''CONVERTED'']]"

text \<open>A hot lead, in the specification's words: its score is greater than 0.8.\<close>

definition hot_lead :: "lead \<Rightarrow> bool" where
  "hot_lead d = (case lead_score d of None \<Rightarrow> False | Some s \<Rightarrow> fl (8 / 10) < s)"

definition converted_leads :: "world \<Rightarrow> nat" where
  "converted_leads w = length (filter (\<lambda>(i, d). lead_status d = Some ''CONVERTED'') (leads w))"

text \<open>
  The conversion rate in the specification's words: 0 if the total is 0, otherwise 100
  times converted over total, that exact quotient rounded to one decimal.
\<close>

definition spec_conversion_rate :: "nat \<Rightarrow> nat \<Rightarrow> string" where
  "spec_conversion_rate converted totalLeads =
     toFixed1 (if totalLeads = 0 then 0 else 100 * of_nat converted / of_nat totalLeads)"

section \<open>An example store\<close>

text \<open>
  A store with four agents (heartbeats 90 s, exactly 60 s and exactly 300 s before the
  call, and one agent with none),
  three leads (one converted and hot, one pending with a score of exactly 0.8, one with no
  score), an open and a resolved alert, and no workflow; it fails on no call.
\<close>

definition example_env :: env where
  "example_env = \<lparr>clock = 1700000000000, zone = \<lparr>initial = 3600000, transitions = []\<rparr>,
                   fresh_id = ''wf1''\<rparr>"



text \<open>
  Havana in 2023, where daylight time began on 12 March at 00:00 local time, the clocks
  going to 01:00, and ended on 5 November at 05:00 UTC.
\<close>

definition havana_2023 :: timezone where
  "havana_2023 = \<lparr>initial = - 18000000,
      transitions = [(1678597200000, - 14400000), (1699160400000, - 18000000)]\<rparr>"

definition example_store :: world where
  "example_store =
     \<lparr>agents =
        [(''scout'', \<lparr>version = Some ''2.1.0'', description = None,
                      last_heartbeat = Some 1699999910000, capabilities = None, metrics = None\<rparr>),
         (''closer'', \<lparr>version = None, description = Some ''Closes deals'',
                       last_heartbeat = Some 1699999940000, capabilities = Some [''email''],
                       metrics = None\<rparr>),
         (''writer'', \<lparr>version = None, description = None,
                       last_heartbeat = None, capabilities = None, metrics = None\<rparr>),
         (''archiver'', \<lparr>version = None, description = None,
                         last_heartbeat = Some 1699999700000, capabilities = None,
                         metrics = None\<rparr>)],
      leads =
        [(''l1'', \<lparr>lead_created = Some 1699999000000, lead_status = Some ''CONVERTED'',
                   lead_score = Some (fl (9 / 10))\<rparr>),
         (''l2'', \<lparr>lead_created = Some 1690000000000, lead_status = Some ''PENDING_RESEARCH'',
                   lead_score = Some (fl (8 / 10))\<rparr>),
         (''l3'', \<lparr>lead_created = None, lead_status = Some ''NEW'', lead_score = None\<rparr>)],
      alerts =
        [(''a1'', \<lparr>severity = Some ''critical'', message = Some ''queue stalled'',
                   agent_id = Some ''scout'', timestamp = Some 1699990000000,
                   resolved = Some False, resolved_at = None, resolved_by = None\<rparr>),
         (''a2'', \<lparr>severity = Some ''warning'', message = Some ''slow reply'',
                   agent_id = None, timestamp = Some 1699980000000,
                   resolved = Some True, resolved_at = Some 1699985000000,
                   resolved_by = Some ''operator''\<rparr>)],
      workflows = [],
      issued = [],
      rejects = (\<lambda>q. None)\<rparr>"

text \<open>
  A collection of leads numbered from 0, the first \<open>converted\<close> of them converted; and
  the example store holding eighty leads of which twenty-three are converted, which is
  28.75 percent exactly.
\<close>

definition lead_batch :: "nat \<Rightarrow> nat \<Rightarrow> (string \<times> lead) list" where
  "lead_batch converted totalLeads =
     map (\<lambda>k. (show_nat k, \<lparr>lead_created = None,
                             lead_status = Some (if k < converted then ''CONVERTED'' else ''NEW''),
                             lead_score = None\<rparr>)) [0..<totalLeads]"

definition tie_store :: world where
  "tie_store = example_store\<lparr>leads := lead_batch 23 80\<rparr>"

text \<open>A request body that tries to set the fields the creation handler fixes.\<close>

definition override_body :: request_body where
  "override_body = Parsed (JObj [(''name'', JStr ''Nightly sync''), (''status'', JStr ''paused''),
     (''completed_today'', JNum 7), (''created_by'', JStr ''someone''), (''created'', JNum 5)])"

text \<open>
  Two requests: one whose path is empty once the prefix is gone, and one that goes on
  after the path of the workflow listing.
\<close>

definition empty_path_event :: event where
  "empty_path_event = \<lparr>httpMethod = ''GET'', path = ''/.netlify/functions/api'', req_body = Absent\<rparr>"

definition trailing_segment_event :: event where
  "trailing_segment_event =
     \<lparr>httpMethod = ''GET'', path = ''/.netlify/functions/api/workflows/extra'', req_body = Absent\<rparr>"

section \<open>Rounding\<close>

text \<open>
  The exponent brackets the number; an integer below \<open>2 ^ 53\<close> is a binary64 value;
  rounding a number that is not tiny moves it by at most one part in \<open>2 ^ 53\<close>.
\<close>

lemma powi2_less_imp:
  assumes "(2::rat) powi a < 2 powi b"
  shows "a < b"
proof (rule ccontr)
  assume "\<not> a < b"
  then have "b \<le> a" by simp
  then have "(2::rat) powi b \<le> 2 powi a" by (rule power_int_increasing) simp
  with assms show False by simp
qed

lemma expo_bounds:
  assumes "x \<noteq> 0"
  shows "2 powi (expo x) \<le> \<bar>x\<bar> \<and> \<bar>x\<bar> < 2 powi (expo x + 1)"
proof -
  obtain p q where pq: "quotient_of \<bar>x\<bar> = (p, q)" by (cases "quotient_of \<bar>x\<bar>")
  have q0: "0 < q" using pq quotient_of_denom_pos by blast
  have xe: "\<bar>x\<bar> = of_int p / of_int q" using pq quotient_of_div by blast
  have "0 < \<bar>x\<bar>" using assms by simp
  then have p0: "0 < p" using xe q0 by (simp add: zero_less_divide_iff)
  define k where "k = bitlen p - bitlen q"
  have bnd: "(2::rat) powi (bitlen n - 1) \<le> of_int n \<and> of_int n < (2::rat) powi (bitlen n)"
    if n0: "0 < n" for n
  proof -
    have b: "2 ^ nat (bitlen n - 1) \<le> n" "n < 2 ^ nat (bitlen n)"
      using bitlen_bounds[OF n0] by auto
    have b1: "1 \<le> bitlen n" using n0 by (auto simp: bitlen_alt_def)
    have "(of_int (2 ^ nat (bitlen n - 1)) :: rat) \<le> of_int n"
      using b(1) of_int_le_iff by blast
    moreover have "(of_int n :: rat) < of_int (2 ^ nat (bitlen n))"
      using b(2) of_int_less_iff by blast
    ultimately show ?thesis using b1 by (simp add: power_int_def)
  qed
  have qpos: "(0::rat) < of_int q" using q0 by simp
  have lo: "(2::rat) powi (k - 1) < \<bar>x\<bar>"
  proof -
    have "(2::rat) powi (k - 1) * of_int q < 2 powi (k - 1) * 2 powi (bitlen q)"
      using bnd[OF q0] by (simp add: mult_strict_left_mono)
    also have "\<dots> = 2 powi (bitlen p - 1)" unfolding k_def
      by (simp add: power_int_add[symmetric])
    also have "\<dots> \<le> of_int p" using bnd[OF p0] by simp
    finally show ?thesis unfolding xe using qpos by (simp add: pos_less_divide_eq)
  qed
  have hi: "\<bar>x\<bar> < (2::rat) powi (k + 1)"
  proof -
    have "of_int p < (2::rat) powi (bitlen p)" using bnd[OF p0] by simp
    also have "\<dots> = 2 powi (k + 1) * 2 powi (bitlen q - 1)" unfolding k_def
      by (simp add: power_int_add[symmetric])
    also have "\<dots> \<le> 2 powi (k + 1) * of_int q"
      using bnd[OF q0] by (simp add: mult_left_mono)
    finally show ?thesis unfolding xe using qpos by (simp add: pos_divide_less_eq)
  qed
  have E: "expo x = (if 2 powi k \<le> \<bar>x\<bar> then k else k - 1)"
    unfolding expo_def pq k_def by (simp add: Let_def)
  show ?thesis
  proof (cases "2 powi k \<le> \<bar>x\<bar>")
    case True
    then show ?thesis using E hi by simp
  next
    case False
    then show ?thesis using E lo by (simp add: less_imp_le)
  qed
qed

lemma expo_unique:
  assumes "2 powi e \<le> \<bar>x\<bar>" and "\<bar>x\<bar> < 2 powi (e + 1)"
  shows "expo x = e"
proof -
  have x0: "x \<noteq> 0"
  proof
    assume "x = 0"
    then have "(2::rat) powi e \<le> 0" using assms(1) by simp
    moreover have "(0::rat) < 2 powi e" by (simp add: zero_less_power_int)
    ultimately show False by simp
  qed
  note b = expo_bounds[OF x0]
  have "(2::rat) powi e < 2 powi (expo x + 1)" using assms(1) b by linarith
  then have 1: "e < expo x + 1" by (rule powi2_less_imp)
  have "(2::rat) powi (expo x) < 2 powi (e + 1)" using assms(2) b by linarith
  then have 2: "expo x < e + 1" by (rule powi2_less_imp)
  from 1 2 show ?thesis by simp
qed

lemma rne_err: "\<bar>of_int (rne y) - y\<bar> \<le> 1 / 2"
proof -
  have "of_int \<lfloor>y\<rfloor> \<le> y" "y < of_int \<lfloor>y\<rfloor> + 1" by linarith+
  then show ?thesis unfolding rne_def Let_def by (auto simp: abs_le_iff)
qed

lemma rne_of_int: "rne (of_int n) = n"
  by (simp add: rne_def Let_def)

lemma fl_of_int:
  assumes "\<bar>n\<bar> < 2 ^ 53"
  shows "fl (of_int n) = of_int n"
proof (cases "n = 0")
  case True
  then show ?thesis by (simp add: fl_def)
next
  case False
  let ?x = "of_int n :: rat"
  have x0: "?x \<noteq> 0" using False by simp
  note b = expo_bounds[OF x0]
  have "1 \<le> \<bar>n\<bar>" using False by simp
  then have "(of_int 1 :: rat) \<le> of_int \<bar>n\<bar>" by (simp only: of_int_le_iff)
  then have "(1::rat) \<le> \<bar>?x\<bar>" by simp
  then have "(2::rat) powi 0 < 2 powi (expo ?x + 1)" using b by simp
  then have "0 < expo ?x + 1" by (rule powi2_less_imp)
  then have e0: "0 \<le> expo ?x" by simp
  have "(of_int \<bar>n\<bar> :: rat) < of_int (2 ^ 53)" using assms by (simp only: of_int_less_iff)
  then have "\<bar>?x\<bar> < 2 ^ 53" by simp
  then have "(2::rat) powi (expo ?x) < 2 powi 53" using b by simp
  then have e1: "expo ?x < 53" by (rule powi2_less_imp)
  define d where "d = nat (52 - expo ?x)"
  have "max (expo ?x - 52) (- 1074) = - int d" using e0 e1 unfolding d_def by simp
  then have u: "ulp ?x = 1 / 2 ^ d"
    unfolding ulp_def by (simp add: power_int_minus_divide)
  have eq: "?x / ulp ?x = of_int (n * 2 ^ d)" unfolding u by simp
  have "rne (?x / ulp ?x) = n * 2 ^ d" unfolding eq by (rule rne_of_int)
  then show ?thesis using x0 unfolding fl_def u by simp
qed

lemma fl_rel_err:
  assumes "2 powi (- 1022) \<le> \<bar>x\<bar>"
  shows "\<bar>fl x - x\<bar> \<le> \<bar>x\<bar> / 2 ^ 53"
proof -
  have x0: "x \<noteq> 0"
  proof
    assume "x = 0"
    then have "(2::rat) powi (- 1022) \<le> 0" using assms by simp
    moreover have "(0::rat) < 2 powi (- 1022)" by (simp add: zero_less_power_int)
    ultimately show False by simp
  qed
  note b = expo_bounds[OF x0]
  have "(2::rat) powi (- 1022) < 2 powi (expo x + 1)" using assms b by linarith
  then have "- 1022 < expo x + 1" by (rule powi2_less_imp)
  then have e: "- 1022 \<le> expo x" by simp
  define u where "u = ulp x"
  have "max (expo x - 52) (- 1074) = expo x - 52" using e by (intro max_absorb1) simp
  then have u: "u = 2 powi (expo x - 52)" unfolding u_def ulp_def by simp
  have upos: "0 < u" unfolding u by (simp add: zero_less_power_int)
  have "fl x - x = (of_int (rne (x / u)) - x / u) * u"
    using x0 upos unfolding fl_def u_def[symmetric] by (simp add: algebra_simps)
  then have "\<bar>fl x - x\<bar> = \<bar>of_int (rne (x / u)) - x / u\<bar> * u"
    using upos by (simp add: abs_mult)
  also have "\<dots> \<le> (1 / 2) * u"
    using rne_err[of "x / u"] upos by (simp add: mult_right_mono)
  also have "\<dots> = 2 powi (expo x) / 2 ^ 53"
    unfolding u by (simp add: power_int_diff)
  also have "\<dots> \<le> \<bar>x\<bar> / 2 ^ 53" using b by (simp add: divide_right_mono)
  finally show ?thesis .
qed

lemma fl_near:
  assumes "1 / 2 ^ 60 \<le> \<bar>x\<bar>"
  shows "\<bar>fl x - x\<bar> \<le> \<bar>x\<bar> / 2 ^ 53"
proof -
  have "(2::rat) powi (- 1022) \<le> 2 powi (- 60)" by (rule power_int_increasing) simp_all
  also have "\<dots> = 1 / 2 ^ 60" by (simp add: power_int_minus_divide)
  finally show ?thesis using assms by (intro fl_rel_err) simp
qed

lemma fl_0: "fl 0 = 0"
  by (simp add: fl_def)

lemma fl_pos:
  assumes "1 / 2 ^ 60 \<le> x"
  shows "9007199254740991 * x \<le> 9007199254740992 * fl x"
    and "9007199254740992 * fl x \<le> 9007199254740993 * x"
proof -
  have "1 / 2 ^ 60 \<le> \<bar>x\<bar>" using assms by simp
  from fl_near[OF this] have "\<bar>fl x - x\<bar> \<le> x / 2 ^ 53" using assms by simp
  then have h: "\<bar>fl x - x\<bar> \<le> x / 9007199254740992" by simp
  show "9007199254740991 * x \<le> 9007199254740992 * fl x" using h by linarith
  show "9007199254740992 * fl x \<le> 9007199254740993 * x" using h by linarith
qed

lemma fl_neg:
  assumes "x \<le> - (1 / 2 ^ 60)"
  shows "9007199254740992 * fl x \<le> 9007199254740991 * x"
proof -
  have "1 / 2 ^ 60 \<le> \<bar>x\<bar>" using assms by simp
  from fl_near[OF this] have "\<bar>fl x - x\<bar> \<le> - x / 2 ^ 53" using assms by simp
  then have h: "\<bar>fl x - x\<bar> \<le> - x / 9007199254740992" by simp
  show ?thesis using h by linarith
qed

lemma elapsed_gt:
  assumes "0 \<le> k" and "k < 2 ^ 40"
  shows "(of_int k < js_div (js_sub (of_int now) (of_int hb)) 1000) \<longleftrightarrow> k * 1000 < now - hb"
proof -
  define d where "d = now - hb"
  define y where "y = fl (of_int d)"
  define x where "x = y / 1000"
  have xy: "1000 * x = y" unfolding x_def by simp
  have L: "js_div (js_sub (of_int now) (of_int hb)) 1000 = fl x"
    unfolding js_div_def js_sub_def x_def y_def d_def by simp
  have "(of_int k :: rat) < of_int (2 ^ 40)" using assms(2) by (simp only: of_int_less_iff)
  then have kr: "(0::rat) \<le> of_int k" "(of_int k :: rat) < 1099511627776"
    using assms(1) by simp_all
  consider "k * 1000 < d" | "0 \<le> d" "d \<le> k * 1000" | "d < 0" by linarith
  then have "(of_int k < fl x) \<longleftrightarrow> k * 1000 < d"
  proof cases
    case 1
    then have "k * 1000 + 1 \<le> d" by simp
    then have "(of_int (k * 1000 + 1) :: rat) \<le> of_int d" by (simp only: of_int_le_iff)
    then have dr: "(of_int k :: rat) * 1000 + 1 \<le> of_int d" by simp
    then have "1 / 2 ^ 60 \<le> (of_int d :: rat)" using kr by simp
    from fl_pos(1)[OF this] have y1: "9007199254740991 * of_int d \<le> 9007199254740992 * y"
      unfolding y_def .
    have xp: "1 / 2 ^ 60 \<le> x" using y1 dr kr xy by simp
    from fl_pos(1)[OF xp] have "9007199254740991 * x \<le> 9007199254740992 * fl x" .
    then have "of_int k < fl x" using y1 xy dr kr by linarith
    then show ?thesis using 1 by simp
  next
    case 2
    have "\<bar>d\<bar> < 2 ^ 53" using 2 assms by simp
    then have y: "y = of_int d" unfolding y_def by (rule fl_of_int)
    show ?thesis
    proof (cases "d = 0")
      case True
      then show ?thesis using 2 kr y by (simp add: x_def fl_0)
    next
      case False
      then have "1 \<le> d" using 2 by simp
      then have "(of_int 1 :: rat) \<le> of_int d" by (simp only: of_int_le_iff)
      then have d1: "(1::rat) \<le> of_int d" by simp
      show ?thesis
      proof (cases "d = k * 1000")
        case True
        then have "x = of_int k" unfolding x_def y by simp
        moreover have "fl (of_int k) = (of_int k :: rat)" using assms by (intro fl_of_int) simp
        ultimately show ?thesis using True by simp
      next
        case False
        then have "d + 1 \<le> k * 1000" using 2 by simp
        then have "(of_int (d + 1) :: rat) \<le> of_int (k * 1000)" by (simp only: of_int_le_iff)
        then have d3: "(of_int d :: rat) + 1 \<le> of_int k * 1000" by simp
        have xp: "1 / 2 ^ 60 \<le> x" using d1 xy y by simp
        from fl_pos(2)[OF xp] have "9007199254740992 * fl x \<le> 9007199254740993 * x" .
        then have "fl x < of_int k" using d3 d1 kr xy y by linarith
        then show ?thesis using 2 by simp
      qed
    qed
  next
    case 3
    then have "d \<le> - 1" by simp
    then have "(of_int d :: rat) \<le> of_int (- 1)" by (simp only: of_int_le_iff)
    then have dr: "(of_int d :: rat) \<le> - 1" by simp
    then have "(of_int d :: rat) \<le> - (1 / 2 ^ 60)" by simp
    from fl_neg[OF this] have y1: "9007199254740992 * y \<le> 9007199254740991 * of_int d"
      unfolding y_def .
    have xp: "x \<le> - (1 / 2 ^ 60)" using y1 dr xy by simp
    from fl_neg[OF xp] have "9007199254740992 * fl x \<le> 9007199254740991 * x" .
    then have "fl x < 0" using xp by simp
    then show ?thesis using 3 assms kr by simp
  qed
  then show ?thesis unfolding L d_def .
qed

lemma agent_status_eq:
  "agent_status now hb =
     (if 300000 < now - hb then ''offline'' else if 60000 < now - hb then ''degraded'' else ''healthy'')"
  using elapsed_gt[of 300 now hb] elapsed_gt[of 60 now hb]
  by (simp add: agent_status_def Let_def)

section \<open>Calls on the store\<close>

lemma store_read_ok:
  "rejects w q = None \<Longrightarrow> store_read q answer w = (Inr (answer w), w\<lparr>issued := issued w @ [q]\<rparr>)"
  by (simp add: store_read_def Let_def)

section \<open>Agent status\<close>

lemma handleGetAgents_ok:
  assumes "rejects w (Query ''prometheus_agents'' []) = None"
  shows "handleGetAgents e w =
    (ok [(''agents'', Object (map (\<lambda>(agentId, data). (agentId, shape_agent (clock e) agentId data)) (agents w))),
         (''timestamp'', Iso (clock e))],
     w\<lparr>issued := issued w @ [Query ''prometheus_agents'' []]\<rparr>)"
  using assms
  by (simp add: handleGetAgents_def try_catch_def seq_def ret_def get_agents_def store_read_ok)

text \<open>
  C1, as amended. For every agent document the store returns, the listing carries a
  status that depends only on the milliseconds elapsed between the call and the last
  heartbeat (none elapsed when the document has no heartbeat): at most 60 seconds gives
  healthy, more than 60 and at most 300 seconds gives degraded, more than 300 seconds
  gives offline.
\<close>

theorem agent_listing_status:
  assumes "rejects w (Query ''prometheus_agents'' []) = None"
    and "(agentId, data) \<in> set (agents w)"
  shows "\<exists>listing shaped.
           body_field ''agents'' (fst (handleGetAgents e w)) = Some (Object listing) \<and>
           (agentId, shaped) \<in> set listing \<and>
           field ''status'' shaped = Some (Str
             (let elapsed = clock e - (case last_heartbeat data of None \<Rightarrow> clock e | Some t \<Rightarrow> t)
              in if elapsed \<le> 60000 then ''healthy''
                 else if elapsed \<le> 300000 then ''degraded'' else ''offline''))"
proof -
  let ?listing = "map (\<lambda>(agentId, data). (agentId, shape_agent (clock e) agentId data)) (agents w)"
  have 1: "body_field ''agents'' (fst (handleGetAgents e w)) = Some (Object ?listing)"
    by (simp add: handleGetAgents_ok[OF assms(1)] body_field_def ok_def)
  have 2: "(agentId, shape_agent (clock e) agentId data) \<in> set ?listing"
    using assms(2) by force
  have 3: "field ''status'' (shape_agent (clock e) agentId data) = Some (Str
             (let elapsed = clock e - (case last_heartbeat data of None \<Rightarrow> clock e | Some t \<Rightarrow> t)
              in if elapsed \<le> 60000 then ''healthy''
                 else if elapsed \<le> 300000 then ''degraded'' else ''offline''))"
    by (simp add: shape_agent_def Let_def agent_status_eq split: option.split)
  from 1 2 3 show ?thesis by blast
qed

text \<open>The agent of the example store whose heartbeat is exactly 60 seconds old is healthy.\<close>

theorem agent_listing_status_witness:
  "rejects example_store (Query ''prometheus_agents'' []) = None \<and>
   (''closer'', snd (agents example_store ! 1)) \<in> set (agents example_store) \<and>
   (\<exists>listing shaped.
      body_field ''agents'' (fst (handleGetAgents example_env example_store)) = Some (Object listing) \<and>
      (''closer'', shaped) \<in> set listing \<and>
      field ''status'' shaped = Some (Str ''healthy''))"
proof -
  have h1: "rejects example_store (Query ''prometheus_agents'' []) = None"
    by (simp add: example_store_def)
  have h2: "(''closer'', snd (agents example_store ! 1)) \<in> set (agents example_store)"
    by (simp add: example_store_def)
  show ?thesis
    using h1 h2 agent_listing_status[OF h1 h2, of example_env]
    by (simp add: example_store_def example_env_def Let_def)
qed

text \<open>
  C1 as stated fails at its two boundaries: in the listing of the example store the agent
  whose heartbeat is exactly 60 seconds old is healthy, not degraded, and the agent whose
  heartbeat is exactly 300 seconds old is degraded, not offline.
\<close>

theorem agent_status_boundary_counterexample:
  "clock example_env - 1699999940000 = 60000 \<and> clock example_env - 1699999700000 = 300000 \<and>
   agent_statuses (fst (handleGetAgents example_env example_store)) =
     [(''scout'', Some (Str ''degraded'')), (''closer'', Some (Str ''healthy'')),
      (''writer'', Some (Str ''healthy'')), (''archiver'', Some (Str ''degraded''))]"
proof -
  have h1: "rejects example_store (Query ''prometheus_agents'' []) = None"
    by (simp add: example_store_def)
  show ?thesis
    unfolding handleGetAgents_ok[OF h1]
    by (simp add: agent_statuses_def body_field_def ok_def example_store_def example_env_def
        shape_agent_def agent_status_eq)
qed

section \<open>Lead metrics\<close>

lemma conversion_rate_zero: "conversion_rate 0 t = 0"
  by (simp add: conversion_rate_def js_mul_def js_div_def fl_0)

lemma conversion_rate_bounds:
  assumes t: "0 < t" "t < 2 ^ 53" and c: "0 < c"
  shows "9007199254740989 * (100 * of_nat c) \<le> 9007199254740992 * (conversion_rate c t * of_nat t)"
    and "9007199254740992 * (conversion_rate c t * of_nat t) \<le> 9007199254740995 * (100 * of_nat c)"
proof -
  define T :: rat where "T = of_nat t"
  define C :: rat where "C = of_nat c"
  define q where "q = C / T"
  define r1 where "r1 = fl q"
  define r where "r = fl (r1 * 100)"
  have R: "conversion_rate c t = r"
    using t unfolding conversion_rate_def js_mul_def js_div_def r_def r1_def q_def C_def T_def
    by simp
  have Tpos: "0 < T" using t unfolding T_def by simp
  have "(of_nat t :: rat) < of_nat (2 ^ 53)" using t(2) by (simp only: of_nat_less_iff)
  then have Tlt: "T < 9007199254740992" unfolding T_def by simp
  have "(of_nat 1 :: rat) \<le> of_nat c" using c by (simp only: of_nat_le_iff)
  then have C1: "1 \<le> C" unfolding C_def by simp
  have qT: "q * T = C" unfolding q_def using Tpos by simp
  have qpos: "1 / 9007199254740992 \<le> q" unfolding q_def using Tpos Tlt C1
    by (simp add: field_simps)
  then have q60: "1 / 2 ^ 60 \<le> q" by simp
  note b1 = fl_pos[OF q60, folded r1_def]
  have p60: "1 / 2 ^ 60 \<le> r1 * 100" using b1(1) qpos by simp
  note b2 = fl_pos[OF p60, folded r_def]
  have q0: "0 \<le> q" using qpos by simp
  have lo: "9007199254740989 * (100 * q) \<le> 9007199254740992 * r"
    using b1(1) b2(1) q0 by linarith
  have hi: "9007199254740992 * r \<le> 9007199254740995 * (100 * q)"
    using b1(2) b2(2) q0 by linarith
  have "9007199254740989 * (100 * q) * T \<le> 9007199254740992 * r * T"
    using lo Tpos by (simp only: mult_right_mono less_imp_le)
  then show "9007199254740989 * (100 * of_nat c) \<le> 9007199254740992 * (conversion_rate c t * of_nat t)"
    using qT unfolding R T_def[symmetric] C_def[symmetric] by (simp add: mult.assoc)
  have "9007199254740992 * r * T \<le> 9007199254740995 * (100 * q) * T"
    using hi Tpos by (simp only: mult_right_mono less_imp_le)
  then show "9007199254740992 * (conversion_rate c t * of_nat t) \<le> 9007199254740995 * (100 * of_nat c)"
    using qT unfolding R T_def[symmetric] C_def[symmetric] by (simp add: mult.assoc)
qed

lemma rne_nonneg: "0 \<le> y \<Longrightarrow> 0 \<le> rne y"
  by (simp add: rne_def Let_def)

lemma fl_nonneg:
  assumes "0 \<le> x"
  shows "0 \<le> fl x"
proof (cases "x = 0")
  case True
  then show ?thesis by (simp add: fl_0)
next
  case False
  have u: "0 < ulp x" unfolding ulp_def by (simp add: zero_less_power_int)
  then have "0 \<le> x / ulp x" using assms by simp
  then have "0 \<le> rne (x / ulp x)" by (rule rne_nonneg)
  then show ?thesis using u False unfolding fl_def by simp
qed

lemma conversion_rate_nonneg: "0 \<le> conversion_rate c t"
  by (simp add: conversion_rate_def js_mul_def js_div_def fl_nonneg)

lemma toFixed1_nonneg: "0 \<le> x \<Longrightarrow> toFixed1 x = decimal1 (nat \<lfloor>x * 10 + 1 / 2\<rfloor>)"
  by (simp add: toFixed1_def)

lemma conversion_rate_tenths:
  assumes t: "0 < t" "t < 2 ^ 53" and c: "c < 2 ^ 40"
  shows "\<bar>of_nat (nat \<lfloor>conversion_rate c t * 10 + 1 / 2\<rfloor>) / 10 - 100 * of_nat c / of_nat t\<bar> \<le> (1 / 20 :: rat)"
proof (cases "c = 0")
  case True
  then show ?thesis by (simp add: conversion_rate_zero)
next
  case False
  then have c0: "0 < c" by simp
  define T :: rat where "T = of_nat t"
  define C :: rat where "C = of_nat c"
  define r where "r = conversion_rate c t"
  define N where "N = \<lfloor>r * 10 + 1 / 2\<rfloor>"
  note b = conversion_rate_bounds[OF t c0, folded r_def T_def C_def]
  have Tpos: "0 < T" using t unfolding T_def by simp
  have "(of_nat 1 :: rat) \<le> of_nat c" using c0 by (simp only: of_nat_le_iff)
  then have C1: "1 \<le> C" unfolding C_def by simp
  have "(of_nat c :: rat) < of_nat (2 ^ 40)" using c by (simp only: of_nat_less_iff)
  then have Clt: "C < 1099511627776" unfolding C_def by simp
  have rT: "0 < r * T" using b(1) C1 by linarith
  have r0: "0 < r" using rT Tpos by (simp add: zero_less_mult_iff)
  have N1: "of_int N \<le> r * 10 + 1 / 2" unfolding N_def by (rule of_int_floor_le)
  have N2: "r * 10 + 1 / 2 < of_int N + 1" unfolding N_def by linarith
  have N0: "0 \<le> N" unfolding N_def using r0 by simp
  have "of_int N * T \<le> (r * 10 + 1 / 2) * T" using N1 Tpos by (simp only: mult_right_mono less_imp_le)
  then have M1: "of_int N * T \<le> 10 * (r * T) + T / 2" by (simp add: algebra_simps)
  have "(r * 10 + 1 / 2) * T < (of_int N + 1) * T" using N2 Tpos by (simp only: mult_strict_right_mono)
  then have M2: "10 * (r * T) + T / 2 < of_int N * T + T" by (simp add: algebra_simps)
  have U: "2 * (of_int N * T) - 2000 * C < T + 1" using M1 b(2) Clt C1 by linarith
  have L: "- T - 1 < 2 * (of_int N * T) - 2000 * C" using M2 b(1) Clt C1 by linarith
  have "(of_int (2 * N * int t - 2000 * int c) :: rat) < of_int (int t + 1)"
    using U unfolding T_def C_def by simp
  then have Ui: "2 * N * int t - 2000 * int c < int t + 1" by (simp only: of_int_less_iff)
  have "(of_int (- int t - 1) :: rat) < of_int (2 * N * int t - 2000 * int c)"
    using L unfolding T_def C_def by simp
  then have Li: "- int t - 1 < 2 * N * int t - 2000 * int c" by (simp only: of_int_less_iff)
  have "\<bar>2 * N * int t - 2000 * int c\<bar> \<le> int t" using Ui Li by simp
  then have "(of_int \<bar>2 * N * int t - 2000 * int c\<bar> :: rat) \<le> of_int (int t)"
    by (simp only: of_int_le_iff)
  then have K: "\<bar>2 * (of_int N * T) - 2000 * C\<bar> \<le> T" unfolding T_def C_def by simp
  have "of_int N / 10 - 100 * C / T = (2 * (of_int N * T) - 2000 * C) / (20 * T)"
    using Tpos by (simp add: field_simps)
  then have "\<bar>of_int N / 10 - 100 * C / T\<bar> = \<bar>2 * (of_int N * T) - 2000 * C\<bar> / (20 * T)"
    using Tpos by (simp add: abs_divide)
  also have "\<dots> \<le> T / (20 * T)" using K Tpos by (simp add: divide_right_mono)
  also have "\<dots> = 1 / 20" using Tpos by simp
  finally have F: "\<bar>of_int N / 10 - 100 * C / T\<bar> \<le> 1 / 20" .
  have "(of_nat (nat N) :: rat) = of_int N" using N0 by simp
  then show ?thesis using F unfolding N_def r_def T_def C_def by (simp only:)
qed

lemma handleGetLeadMetrics_ok:
  assumes "accepts w (lead_queries (setHours0 (zone e) (clock e)))"
  shows "handleGetLeadMetrics e w =
    (ok [(''metrics'', Object
            [(''total'', Num (of_nat (length (leads w)))),
             (''today'', Num (of_nat (length (filter (\<lambda>(i, d). case lead_created d of None \<Rightarrow> False
                             | Some c \<Rightarrow> setHours0 (zone e) (clock e) \<le> c) (leads w))))),
             (''pending'', Num (of_nat (length (filter (\<lambda>(i, d). lead_status d = Some ''PENDING_RESEARCH'') (leads w))))),
             (''hot'', Num (of_nat (hot_count (leads w)))),
             (''conversionRate'', Str (toFixed1 (conversion_rate (converted_leads w) (length (leads w)))))]),
         (''timestamp'', Iso (setHours0 (zone e) (clock e)))],
     w\<lparr>issued := issued w @ lead_queries (setHours0 (zone e) (clock e))\<rparr>)"
  using assms
  by (simp add: handleGetLeadMetrics_def try_catch_def seq_def ret_def get_leads_def
      leads_created_since_def leads_with_status_def store_read_def lead_queries_def Let_def
      converted_leads_def accepts_def)

lemma decimal1_0: "decimal1 0 = ''0.0''"
  by (simp add: decimal1_def)

text \<open>
  A number of tenths within one twentieth of \<open>100 c / t\<close> is that value rounded to
  one decimal, unless the value lies exactly halfway between two tenths.
\<close>

lemma nearest_tenth_cases:
  fixes n c t :: nat
  assumes t: "0 < t"
    and d: "\<bar>of_nat n / 10 - 100 * of_nat c / of_nat t\<bar> \<le> (1 / 20 :: rat)"
  shows "n = nat \<lfloor>1000 * of_nat c / of_nat t + (1 / 2 :: rat)\<rfloor> \<or> 2000 * c = (2 * n + 1) * t"
proof -
  define x :: rat where "x = 1000 * of_nat c / of_nat t"
  define N where "N = \<lfloor>x + 1 / 2\<rfloor>"
  have x10: "100 * of_nat c / of_nat t = x / 10" unfolding x_def by simp
  have lo: "x - 1 / 2 \<le> of_nat n" and hi: "of_nat n \<le> x + 1 / 2"
    using d unfolding x10 by linarith+
  have "of_int (int n) \<le> x + 1 / 2" using hi by simp
  then have nN: "int n \<le> N" unfolding N_def by (simp only: le_floor_iff)
  have N1: "of_int N \<le> x + 1 / 2" unfolding N_def by (rule of_int_floor_le)
  show ?thesis
  proof (cases "int n = N")
    case True
    then have "n = nat N" by simp
    then show ?thesis unfolding N_def x_def by simp
  next
    case False
    then have "int n + 1 \<le> N" using nN by simp
    then have "(of_int (int n + 1) :: rat) \<le> of_int N" by (simp only: of_int_le_iff)
    then have "of_nat n + 1 \<le> x + 1 / 2" using N1 by simp
    then have "x = of_nat n + 1 / 2" using lo by simp
    then have "1000 * of_nat c / of_nat t = (of_nat n :: rat) + 1 / 2" unfolding x_def by simp
    then have "2000 * (of_nat c :: rat) = (2 * of_nat n + 1) * of_nat t"
      using t by (simp add: field_simps)
    then have "(of_nat (2000 * c) :: rat) = of_nat ((2 * n + 1) * t)"
      by (simp add: algebra_simps)
    then have "2000 * c = (2 * n + 1) * t" by (simp only: of_nat_eq_iff)
    then show ?thesis by simp
  qed
qed

text \<open>
  C3. The \<open>conversionRate\<close> field is what \<open>toFixed(1)\<close> writes of the number the
  handler computes, a number of tenths with one digit after the point. That number is
  zero (\<open>0.0\<close>) when there is no lead, and otherwise the binary64 result of converted
  over total, times 100, each operation rounded. The field is then a nearest tenth to
  the exact value of 100 times the number of leads with status CONVERTED over the number
  of leads: that exact value rounded to one decimal, unless it lies exactly halfway
  between two tenths.
\<close>

theorem lead_conversion_rate:
  assumes "accepts w (lead_queries (setHours0 (zone e) (clock e)))"
    and "length (leads w) < 2 ^ 40"
  shows "\<exists>n. body_field2 ''metrics'' ''conversionRate'' (fst (handleGetLeadMetrics e w))
                = Some (Str (decimal1 n)) \<and>
             decimal1 n = toFixed1 (conversion_rate (converted_leads w) (length (leads w))) \<and>
             (if length (leads w) = 0 then n = 0 \<and> decimal1 n = ''0.0''
              else conversion_rate (converted_leads w) (length (leads w))
                     = fl (fl (of_nat (converted_leads w) / of_nat (length (leads w))) * 100) \<and>
                   \<bar>of_nat n / 10 - 100 * of_nat (converted_leads w) / of_nat (length (leads w))\<bar>
                     \<le> (1 / 20 :: rat) \<and>
                   (n = nat \<lfloor>1000 * of_nat (converted_leads w) / of_nat (length (leads w))
                              + (1 / 2 :: rat)\<rfloor> \<or>
                    2000 * converted_leads w = (2 * n + 1) * length (leads w)))"
proof -
  define t where "t = length (leads w)"
  define c where "c = converted_leads w"
  define n where "n = nat \<lfloor>conversion_rate c t * 10 + 1 / 2\<rfloor>"
  have ct: "c \<le> t" unfolding c_def t_def converted_leads_def by (rule length_filter_le)
  have D: "decimal1 n = toFixed1 (conversion_rate c t)"
    unfolding n_def by (simp add: toFixed1_nonneg conversion_rate_nonneg)
  have F: "body_field2 ''metrics'' ''conversionRate'' (fst (handleGetLeadMetrics e w))
             = Some (Str (decimal1 n))"
    unfolding handleGetLeadMetrics_ok[OF assms(1)] D c_def t_def
    by (simp add: body_field2_def body_field_def ok_def)
  have "if t = 0 then n = 0 \<and> decimal1 n = ''0.0''
        else conversion_rate c t = fl (fl (of_nat c / of_nat t) * 100) \<and>
             \<bar>of_nat n / 10 - 100 * of_nat c / of_nat t\<bar> \<le> (1 / 20 :: rat) \<and>
             (n = nat \<lfloor>1000 * of_nat c / of_nat t + (1 / 2 :: rat)\<rfloor> \<or>
              2000 * c = (2 * n + 1) * t)"
  proof (cases "t = 0")
    case True
    then have "n = 0" unfolding n_def by (simp add: conversion_rate_def)
    then show ?thesis using True by (simp add: decimal1_0)
  next
    case False
    then have t0: "0 < t" by simp
    have "t < 2 ^ 53" using assms(2) unfolding t_def by simp
    moreover have "c < 2 ^ 40" using ct assms(2) unfolding t_def by simp
    ultimately have d: "\<bar>of_nat n / 10 - 100 * of_nat c / of_nat t\<bar> \<le> (1 / 20 :: rat)"
      using t0 conversion_rate_tenths[of t c] unfolding n_def by simp
    have v: "conversion_rate c t = fl (fl (of_nat c / of_nat t) * 100)"
      using t0 by (simp add: conversion_rate_def js_mul_def js_div_def)
    show ?thesis using False d v nearest_tenth_cases[OF t0 d] by simp
  qed
  then show ?thesis using F D unfolding t_def c_def by blast
qed

lemma example_lead_queries:
  "accepts example_store (lead_queries (setHours0 (zone example_env) (clock example_env)))"
  by (simp add: example_store_def accepts_def lead_queries_def roi_queries_def)

lemma rate_1_3: "toFixed1 (conversion_rate 1 3) = ''33.3''"
  by code_simp

text \<open>With one converted lead of three, as in the example store, the field is \<open>33.3\<close>.\<close>

theorem lead_conversion_rate_witness:
  "accepts example_store (lead_queries (setHours0 (zone example_env) (clock example_env))) \<and>
   length (leads example_store) < 2 ^ 40 \<and>
   converted_leads example_store = 1 \<and> length (leads example_store) = 3 \<and>
   body_field2 ''metrics'' ''conversionRate'' (fst (handleGetLeadMetrics example_env example_store))
     = Some (Str ''33.3'')"
proof -
  have h2: "length (leads example_store) < 2 ^ 40" by (simp add: example_store_def)
  have c: "converted_leads example_store = 1" "length (leads example_store) = 3"
    by (simp_all add: converted_leads_def example_store_def)
  obtain n where f: "body_field2 ''metrics'' ''conversionRate''
        (fst (handleGetLeadMetrics example_env example_store)) = Some (Str (decimal1 n))"
    and n: "decimal1 n = toFixed1 (conversion_rate 1 3)"
    using lead_conversion_rate[OF example_lead_queries h2] by (auto simp: c)
  show ?thesis using example_lead_queries h2 c f unfolding n rate_1_3 by simp
qed

lemma length_lead_batch: "length (lead_batch c t) = t"
  by (simp add: lead_batch_def)

lemma converted_lead_batch:
  assumes "c \<le> t"
  shows "length (filter (\<lambda>(i, d). lead_status d = Some ''CONVERTED'') (lead_batch c t)) = c"
proof -
  have "length (filter (\<lambda>(i, d). lead_status d = Some ''CONVERTED'') (lead_batch c t))
        = length (filter (\<lambda>k. k < c) [0..<t])"
    unfolding lead_batch_def by (simp add: filter_map comp_def)
  also have "filter (\<lambda>k. k < c) [0..<t] = [0..<c]"
    using assms by (induction t) (auto simp: le_Suc_eq)
  finally show ?thesis by simp
qed

lemma tie_store_accepts: "accepts tie_store qs"
  by (simp add: tie_store_def example_store_def accepts_def list_all_iff)

lemma rate_23_80_value: "conversion_rate 23 80 = 8092405580431359 / 281474976710656"
  by code_simp

lemma rate_23_80: "toFixed1 (conversion_rate 23 80) = ''28.7''"
  by code_simp

lemma spec_23_80: "spec_conversion_rate 23 80 = ''28.8''"
  by code_simp

text \<open>
  Two exact values halfway between two tenths, 28.75 and 6.25: the quotient 23 / 80 is
  rounded below 0.2875 and the field is the lower tenth, the quotient 1 / 16 is exact and
  the field is the upper tenth. No rule for ties on the exact value gives both.
\<close>

lemma conversion_rate_ties:
  "toFixed1 (conversion_rate 23 80) = ''28.7'' \<and> conversion_rate 23 80 < 2875 / 100 \<and>
   toFixed1 (conversion_rate 1 16) = ''6.3'' \<and> conversion_rate 1 16 = 625 / 100"
  by code_simp

text \<open>
  C3 as stated fails where the exact rate is halfway between two tenths: with 23 converted
  leads of 80 the exact rate is 28.75, which rounds to \<open>28.8\<close>, and the field is
  \<open>28.7\<close>.
\<close>

theorem conversion_rate_tie_counterexample:
  "accepts tie_store (lead_queries (setHours0 (zone example_env) (clock example_env))) \<and>
   length (leads tie_store) = 80 \<and> converted_leads tie_store = 23 \<and>
   body_field2 ''metrics'' ''conversionRate'' (fst (handleGetLeadMetrics example_env tie_store))
     = Some (Str ''28.7'') \<and>
   spec_conversion_rate 23 80 = ''28.8''"
proof -
  have l: "length (leads tie_store) = 80" by (simp add: tie_store_def length_lead_batch)
  have c: "converted_leads tie_store = 23"
    by (simp add: tie_store_def converted_leads_def converted_lead_batch)
  show ?thesis
    unfolding handleGetLeadMetrics_ok[OF tie_store_accepts] l c
    using tie_store_accepts l c
    by (simp add: body_field2_def body_field_def ok_def rate_23_80 spec_23_80)
qed

lemma fl_8_10: "fl (4 / 5) = 3602879701896397 / 4503599627370496"
  by code_simp

lemma fl_9_10: "fl (9 / 10) = 8106479329266893 / 9007199254740992"
  by code_simp

lemma hot_threshold_binary64:
  assumes "fl s = s"
  shows "fl (8 / 10) < s \<longleftrightarrow> 8 / 10 < s \<and> s \<noteq> fl (8 / 10)"
proof -
  have F: "fl (8 / 10) = 7205759403792794 / 9007199254740992"
    using fl_8_10 by simp
  show ?thesis
  proof
    assume "fl (8 / 10) < s"
    then show "8 / 10 < s \<and> s \<noteq> fl (8 / 10)" unfolding F by simp
  next
    assume a: "8 / 10 < s \<and> s \<noteq> fl (8 / 10)"
    show "fl (8 / 10) < s"
    proof (rule ccontr)
      assume "\<not> fl (8 / 10) < s"
      then have lt: "s < 7205759403792794 / 9007199254740992" using a unfolding F by simp
      have "2 powi (- 1) \<le> \<bar>s\<bar>" using a by (simp add: power_int_minus_divide)
      moreover have "\<bar>s\<bar> < 2 powi (- 1 + 1)" using a lt by simp
      ultimately have e: "expo s = - 1" by (rule expo_unique)
      have u: "ulp s = 1 / 9007199254740992"
        unfolding ulp_def e by (simp add: power_int_minus_divide)
      define m where "m = rne (s / ulp s)"
      have s0: "s \<noteq> 0" using a by auto
      have "s = of_int m / 9007199254740992"
        using assms s0 unfolding fl_def m_def u by simp
      then have "8 / 10 < (of_int m :: rat) / 9007199254740992"
        and "(of_int m :: rat) / 9007199254740992 < 7205759403792794 / 9007199254740992"
        using a lt by simp_all
      then have "(of_int 7205759403792793 :: rat) < of_int m" "(of_int m :: rat) < of_int 7205759403792794"
        by simp_all
      then have "7205759403792793 < m" "m < 7205759403792794" by (simp_all only: of_int_less_iff)
      then show False by simp
    qed
  qed
qed

text \<open>
  C4. The \<open>hot\<close> field is the number of documents of the full lead collection, as the
  first store call fetched it, whose score is greater than 0.8: for a score that is a
  binary64 value, greater than eight tenths and not the binary64 value of the literal
  \<open>0.8\<close> itself, so a lead with score exactly 0.8 is not counted. The handler makes four
  store calls, the unfiltered one and three filtered ones, none of them on the score.
\<close>

theorem hot_lead_count:
  assumes "accepts w (lead_queries (setHours0 (zone e) (clock e)))"
  shows "body_field2 ''metrics'' ''hot'' (fst (handleGetLeadMetrics e w))
           = Some (Num (of_nat (length (filter (\<lambda>(i, d). hot_lead d) (leads w))))) \<and>
         issued (snd (handleGetLeadMetrics e w))
           = issued w @ lead_queries (setHours0 (zone e) (clock e)) \<and>
         (\<forall>(i, d)\<in>set (leads w). lead_score d = Some (fl (8 / 10)) \<longrightarrow> \<not> hot_lead d) \<and>
         (\<forall>(i, d)\<in>set (leads w). \<forall>s. lead_score d = Some s \<and> fl s = s \<longrightarrow>
            (hot_lead d \<longleftrightarrow> 8 / 10 < s \<and> s \<noteq> fl (8 / 10)))"
proof -
  have "\<forall>(i, d)\<in>set (leads w). \<forall>s. lead_score d = Some s \<and> fl s = s \<longrightarrow>
            (hot_lead d \<longleftrightarrow> 8 / 10 < s \<and> s \<noteq> fl (8 / 10))"
    using hot_threshold_binary64 by (auto simp: hot_lead_def)
  then show ?thesis
    unfolding handleGetLeadMetrics_ok[OF assms]
    by (auto simp: body_field2_def body_field_def ok_def hot_count_def hot_lead_def)
qed

text \<open>
  In the example store one lead of three is hot, and the lead with score exactly 0.8 is
  not.
\<close>

theorem hot_lead_count_witness:
  "accepts example_store (lead_queries (setHours0 (zone example_env) (clock example_env))) \<and>
   body_field2 ''metrics'' ''hot'' (fst (handleGetLeadMetrics example_env example_store))
     = Some (Num 1) \<and>
   (''l2'', snd (leads example_store ! 1)) \<in> set (leads example_store) \<and>
   lead_score (snd (leads example_store ! 1)) = Some (fl (8 / 10)) \<and>
   \<not> hot_lead (snd (leads example_store ! 1))"
  using example_lead_queries hot_lead_count[OF example_lead_queries]
  by (simp add: example_store_def hot_lead_def fl_8_10 fl_9_10)








text \<open>In a zone with one offset \<open>setHours\<close> is plain arithmetic on the time value.\<close>

lemma setHours0_fixed_zone:
  assumes "transitions z = []"
  shows "setHours0 z t = ((t + initial z) div msPerDay) * msPerDay - initial z"
  using assms
  by (simp add: setHours0_def midnight_reading_def UTC_def possibleInstants_def LocalTime_def
      offset_at_def)

text \<open>
  A day without \<open>00:00\<close>: in Havana on 12 March 2023 no instant reads it, and
  \<open>setHours\<close> at 07:20 local time puts the date at the transition, which reads
  \<open>01:00\<close>.
\<close>

lemma setHours0_skipped_midnight:
  "possibleInstants havana_2023 (midnight_reading havana_2023 1678620000000) = [] \<and>
   setHours0 havana_2023 1678620000000 = 1678597200000 \<and>
   LocalTime havana_2023 1678597200000
     = midnight_reading havana_2023 1678620000000 + 3600000"
  by (simp add: havana_2023_def setHours0_def midnight_reading_def UTC_def
      possibleInstants_def LocalTime_def offset_at_def msPerDay_def)




section \<open>Handlers that only read\<close>

lemma reads_only_store_read: "reads_only (store_read q answer)"
  unfolding reads_only_def
proof
  fix w
  show "\<exists>ops. snd (store_read q answer w) = w\<lparr>issued := issued w @ ops\<rparr>"
    by (rule exI[of _ "[q]"]) (simp add: store_read_def Let_def split: option.split)
qed

lemma reads_only_ret: "reads_only (ret a)"
  unfolding reads_only_def
proof
  fix w
  show "\<exists>ops. snd (ret a w) = w\<lparr>issued := issued w @ ops\<rparr>"
    by (rule exI[of _ "[]"]) (simp add: ret_def)
qed

lemma reads_only_lift: "reads_only (lift r)"
  unfolding reads_only_def
proof
  fix w
  show "\<exists>ops. snd (lift r w) = w\<lparr>issued := issued w @ ops\<rparr>"
    by (rule exI[of _ "[]"]) (simp add: lift_def)
qed

lemma reads_only_seq:
  assumes "reads_only m" and "\<And>a. reads_only (f a)"
  shows "reads_only (seq m f)"
  unfolding reads_only_def
proof
  fix w
  obtain ops where m: "snd (m w) = w\<lparr>issued := issued w @ ops\<rparr>"
    using assms(1) unfolding reads_only_def by blast
  show "\<exists>ops. snd (seq m f w) = w\<lparr>issued := issued w @ ops\<rparr>"
  proof (cases "m w")
    case (Pair r w1)
    then have w1: "w1 = w\<lparr>issued := issued w @ ops\<rparr>" using m by simp
    show ?thesis
    proof (cases r)
      case (Inl err)
      then show ?thesis using Pair w1 by (auto simp: seq_def)
    next
      case (Inr a)
      obtain ops2 where "snd (f a w1) = w1\<lparr>issued := issued w1 @ ops2\<rparr>"
        using assms(2)[of a] unfolding reads_only_def by blast
      then have "snd (seq m f w) = w\<lparr>issued := issued w @ (ops @ ops2)\<rparr>"
        using Pair Inr w1 by (simp add: seq_def)
      then show ?thesis by blast
    qed
  qed
qed

lemma reads_only_try_catch:
  assumes "reads_only p"
  shows "reads_only (try_catch p)"
  unfolding reads_only_def
proof
  fix w
  obtain ops where "snd (p w) = w\<lparr>issued := issued w @ ops\<rparr>"
    using assms unfolding reads_only_def by blast
  then have "snd (try_catch p w) = w\<lparr>issued := issued w @ ops\<rparr>"
    by (cases "p w") (auto simp: try_catch_def split: sum.split)
  then show "\<exists>ops. snd (try_catch p w) = w\<lparr>issued := issued w @ ops\<rparr>" by blast
qed

lemmas reads_only_intros =
  reads_only_try_catch reads_only_seq reads_only_store_read reads_only_ret reads_only_lift

lemma reads_only_handleGetAgents: "reads_only (handleGetAgents e)"
  unfolding handleGetAgents_def get_agents_def by (intro reads_only_intros)

lemma reads_only_handleAgentCommand: "reads_only (handleAgentCommand i b)"
  unfolding handleAgentCommand_def by (intro reads_only_intros)

lemma reads_only_handleGetLeadMetrics: "reads_only (handleGetLeadMetrics e)"
  unfolding handleGetLeadMetrics_def get_leads_def leads_created_since_def leads_with_status_def Let_def
  by (intro reads_only_intros)

lemma reads_only_handleGetAlerts: "reads_only (handleGetAlerts e)"
  unfolding handleGetAlerts_def active_alerts_def by (intro reads_only_intros)

lemma reads_only_handleGetWorkflows: "reads_only handleGetWorkflows"
  unfolding handleGetWorkflows_def get_workflows_def by (intro reads_only_intros)

lemma reads_only_handleCalculateROI: "reads_only handleCalculateROI"
  unfolding handleCalculateROI_def get_agents_def get_leads_def leads_with_status_def Let_def
  by (intro reads_only_intros)

lemma reads_only_unchanged:
  assumes "reads_only m"
  shows "agents (snd (m w)) = agents w \<and> leads (snd (m w)) = leads w \<and>
         alerts (snd (m w)) = alerts w \<and> workflows (snd (m w)) = workflows w"
proof -
  obtain ops where "snd (m w) = w\<lparr>issued := issued w @ ops\<rparr>"
    using assms unfolding reads_only_def by blast
  then show ?thesis by simp
qed

section \<open>Alert resolution\<close>

lemma handleResolveAlert_ok:
  assumes "alertId \<in> fst ` set (alerts w)"
    and "rejects w (Update ''system_alerts'' alertId True (clock e) ''dashboard_user'') = None"
  shows "handleResolveAlert e alertId w =
    (ok [(''message'', Str (''Alert '' @ alertId @ '' resolved''))],
     w\<lparr>issued := issued w @ [Update ''system_alerts'' alertId True (clock e) ''dashboard_user''],
        alerts := map (\<lambda>(i, d). if i = alertId
                    then (i, d\<lparr>resolved := Some True, resolved_at := Some (clock e),
                               resolved_by := Some ''dashboard_user''\<rparr>)
                    else (i, d)) (alerts w)\<rparr>)"
  using assms
  by (simp add: handleResolveAlert_def try_catch_def seq_def ret_def update_alert_def Let_def)

lemma handleResolveAlert_alerts:
  "alerts (snd (handleResolveAlert e alertId w)) = alerts w \<or>
   alerts (snd (handleResolveAlert e alertId w)) =
     map (\<lambda>(i, d). if i = alertId
            then (i, d\<lparr>resolved := Some True, resolved_at := Some (clock e),
                       resolved_by := Some ''dashboard_user''\<rparr>)
            else (i, d)) (alerts w)"
  by (simp add: handleResolveAlert_def try_catch_def seq_def ret_def update_alert_def Let_def
      split: option.split)

subsection \<open>The outcomes of workflow creation\<close>

lemma get_prop_non_null:
  "v \<noteq> JNull \<Longrightarrow> get_prop v k = Inr (case v of JObj kvs \<Rightarrow> map_of kvs k | _ \<Rightarrow> None)"
  by (cases v) simp_all

lemma handleCreateWorkflow_cases:
  "(\<exists>err. handleCreateWorkflow e b w = (failed err, w)) \<or>
   (\<exists>n d t s m. handleCreateWorkflow e b w =
      (failed (StoreError m),
       w\<lparr>issued := issued w @ [Add ''workflows'' (new_workflow (clock e) n d t s)]\<rparr>)) \<or>
   (\<exists>n d t s. handleCreateWorkflow e b w =
      (ok [(''workflow_id'', Str (fresh_id e)), (''message'', Str ''Workflow created successfully'')],
       w\<lparr>issued := issued w @ [Add ''workflows'' (new_workflow (clock e) n d t s)],
          workflows := workflows w @ [(fresh_id e, new_workflow (clock e) n d t s)]\<rparr>))"
proof (cases "parse_body b")
  case (Inl err)
  then have "handleCreateWorkflow e b w = (failed err, w)"
    by (simp add: handleCreateWorkflow_def try_catch_def seq_def lift_def)
  then show ?thesis by blast
next
  case (Inr v)
  show ?thesis
  proof (cases "v = JNull")
    case True
    then have "handleCreateWorkflow e b w = (failed TypeError, w)"
      using Inr by (simp add: handleCreateWorkflow_def try_catch_def seq_def lift_def)
    then show ?thesis by blast
  next
    case False
    define pv where "pv k = (case v of JObj kvs \<Rightarrow> map_of kvs k | _ \<Rightarrow> None)" for k
    define doc where "doc = new_workflow (clock e) (pv ''name'') (pv ''description'')
      (pv ''trigger'') (pv ''steps'')"
    have g: "get_prop v k = Inr (pv k)" for k
      unfolding pv_def using False by (rule get_prop_non_null)
    show ?thesis
    proof (cases "rejects w (Add ''workflows'' doc)")
      case None
      then have "handleCreateWorkflow e b w =
        (ok [(''workflow_id'', Str (fresh_id e)), (''message'', Str ''Workflow created successfully'')],
         w\<lparr>issued := issued w @ [Add ''workflows'' doc],
            workflows := workflows w @ [(fresh_id e, doc)]\<rparr>)"
        using Inr g unfolding doc_def
        by (simp add: handleCreateWorkflow_def try_catch_def seq_def lift_def ret_def
            add_workflow_def Let_def)
      then show ?thesis unfolding doc_def by blast
    next
      case (Some m)
      then have "handleCreateWorkflow e b w =
        (failed (StoreError m), w\<lparr>issued := issued w @ [Add ''workflows'' doc]\<rparr>)"
        using Inr g unfolding doc_def
        by (simp add: handleCreateWorkflow_def try_catch_def seq_def lift_def ret_def
            add_workflow_def Let_def)
      then show ?thesis unfolding doc_def by blast
    qed
  qed
qed

lemma handleCreateWorkflow_alerts: "alerts (snd (handleCreateWorkflow e b w)) = alerts w"
  using handleCreateWorkflow_cases[of e b w] by auto

subsection \<open>Alerts across the router\<close>

lemma handler_alerts:
  "alerts (snd (handler e ev w)) = alerts w \<or>
   (\<exists>alertId. alerts (snd (handler e ev w)) =
      map (\<lambda>(i, d). if i = alertId
             then (i, d\<lparr>resolved := Some True, resolved_at := Some (clock e),
                        resolved_by := Some ''dashboard_user''\<rparr>)
             else (i, d)) (alerts w))"
proof (cases "httpMethod ev = ''OPTIONS''")
  case True
  then show ?thesis by (simp add: handler_def)
next
  case False
  show ?thesis
  proof (cases "select (httpMethod ev) (segments_of (path ev))")
    case GetAgents
    then show ?thesis using False reads_only_unchanged[OF reads_only_handleGetAgents, of e w]
      by (simp add: handler_def)
  next
    case (AgentCommand i)
    then show ?thesis
      using False reads_only_unchanged[OF reads_only_handleAgentCommand, of i "req_body ev" w]
      by (simp add: handler_def)
  next
    case GetLeadMetrics
    then show ?thesis using False reads_only_unchanged[OF reads_only_handleGetLeadMetrics, of e w]
      by (simp add: handler_def)
  next
    case GetAlerts
    then show ?thesis using False reads_only_unchanged[OF reads_only_handleGetAlerts, of e w]
      by (simp add: handler_def)
  next
    case (ResolveAlert i)
    then show ?thesis using False handleResolveAlert_alerts[of e i w]
      by (auto simp: handler_def)
  next
    case GetWorkflows
    then show ?thesis using False reads_only_unchanged[OF reads_only_handleGetWorkflows, of w]
      by (simp add: handler_def)
  next
    case CreateWorkflow
    then show ?thesis using False handleCreateWorkflow_alerts[of e "req_body ev" w]
      by (simp add: handler_def)
  next
    case CalculateROI
    then show ?thesis using False reads_only_unchanged[OF reads_only_handleCalculateROI, of w]
      by (simp add: handler_def)
  next
    case NoRoute
    then show ?thesis using False by (simp add: handler_def)
  qed
qed

lemma resolved_stays:
  assumes "(i, d) \<in> set (alerts w)" and "resolved d = Some True"
  shows "\<exists>d'. (i, d') \<in> set (alerts (snd (handler e ev w))) \<and> resolved d' = Some True"
proof -
  from handler_alerts[of e ev w] show ?thesis
  proof
    assume "alerts (snd (handler e ev w)) = alerts w"
    then show ?thesis using assms by auto
  next
    assume "\<exists>alertId. alerts (snd (handler e ev w)) =
      map (\<lambda>(i, d). if i = alertId
             then (i, d\<lparr>resolved := Some True, resolved_at := Some (clock e),
                        resolved_by := Some ''dashboard_user''\<rparr>)
             else (i, d)) (alerts w)"
    then obtain a where a: "alerts (snd (handler e ev w)) =
      map (\<lambda>(i, d). if i = a
             then (i, d\<lparr>resolved := Some True, resolved_at := Some (clock e),
                        resolved_by := Some ''dashboard_user''\<rparr>)
             else (i, d)) (alerts w)" by blast
    show ?thesis
    proof (cases "i = a")
      case True
      have "(i, d\<lparr>resolved := Some True, resolved_at := Some (clock e),
                        resolved_by := Some ''dashboard_user''\<rparr>) \<in> set (alerts (snd (handler e ev w)))"
        unfolding a using assms(1) True by force
      then show ?thesis by force
    next
      case False
      have "(i, d) \<in> set (alerts (snd (handler e ev w)))"
        unfolding a using assms(1) False by force
      then show ?thesis using assms(2) by blast
    qed
  qed
qed

text \<open>
  C6. For every id of an existing alert, whatever its current state, and a store that
  carries out the update: the handler issues the one update that sets \<open>resolved\<close> to
  true with the time of the call and the resolver \<open>dashboard_user\<close>, and answers with
  success; resolving again succeeds with the same answer and \<open>resolved\<close> stays true.
  No request to the router takes a resolved alert back: after any request a resolved alert
  is still there and still resolved.
\<close>

theorem resolve_alert_idempotent:
  assumes "alertId \<in> fst ` set (alerts w)"
    and "rejects w (Update ''system_alerts'' alertId True (clock e) ''dashboard_user'') = None"
    and "rejects w (Update ''system_alerts'' alertId True (clock e') ''dashboard_user'') = None"
  shows "(let (r1, w1) = handleResolveAlert e alertId w;
              (r2, w2) = handleResolveAlert e' alertId w1
          in r1 = ok [(''message'', Str (''Alert '' @ alertId @ '' resolved''))] \<and>
             statusCode r1 = 200 \<and>
             issued w1 = issued w @ [Update ''system_alerts'' alertId True (clock e) ''dashboard_user''] \<and>
             map fst (alerts w1) = map fst (alerts w) \<and>
             (\<forall>(i, d)\<in>set (alerts w1). i = alertId \<longrightarrow>
                resolved d = Some True \<and> resolved_at d = Some (clock e) \<and>
                resolved_by d = Some ''dashboard_user'') \<and>
             r2 = r1 \<and>
             (\<forall>(i, d)\<in>set (alerts w2). i = alertId \<longrightarrow> resolved d = Some True)) \<and>
         (\<forall>e ev. \<forall>(i, d)\<in>set (alerts w). resolved d = Some True \<longrightarrow>
            (\<exists>d'. (i, d') \<in> set (alerts (snd (handler e ev w))) \<and> resolved d' = Some True))"
proof -
  let ?f = "\<lambda>t (i, d). if i = alertId
                    then (i, d\<lparr>resolved := Some True, resolved_at := Some t,
                               resolved_by := Some ''dashboard_user''\<rparr>)
                    else (i, d)"
  define w1 where "w1 = w\<lparr>issued := issued w @ [Update ''system_alerts'' alertId True (clock e) ''dashboard_user''],
        alerts := map (?f (clock e)) (alerts w)\<rparr>"
  have 1: "handleResolveAlert e alertId w =
     (ok [(''message'', Str (''Alert '' @ alertId @ '' resolved''))], w1)"
    unfolding w1_def using assms(1,2) by (rule handleResolveAlert_ok)
  have ids: "map fst (alerts w1) = map fst (alerts w)"
    unfolding w1_def by (auto simp: comp_def split: prod.split)
  then have "set (map fst (alerts w1)) = set (map fst (alerts w))" by simp
  then have ex1: "alertId \<in> fst ` set (alerts w1)" using assms(1) by simp
  have rj: "rejects w1 (Update ''system_alerts'' alertId True (clock e') ''dashboard_user'') = None"
    unfolding w1_def using assms(3) by simp
  note 2 = handleResolveAlert_ok[OF ex1 rj]
  have A: "\<forall>(i, d)\<in>set (alerts w1). i = alertId \<longrightarrow>
                resolved d = Some True \<and> resolved_at d = Some (clock e) \<and>
                resolved_by d = Some ''dashboard_user''"
    unfolding w1_def by (auto split: if_splits)
  have B: "\<forall>e ev. \<forall>(i, d)\<in>set (alerts w). resolved d = Some True \<longrightarrow>
            (\<exists>d'. (i, d') \<in> set (alerts (snd (handler e ev w))) \<and> resolved d' = Some True)"
    using resolved_stays by blast
  have C: "issued w1 = issued w @ [Update ''system_alerts'' alertId True (clock e) ''dashboard_user'']"
    unfolding w1_def by simp
  have D: "\<forall>(i, d)\<in>set (map (?f (clock e')) (alerts w1)). i = alertId \<longrightarrow> resolved d = Some True"
    by (auto split: if_splits)
  show ?thesis
    using ids A B C D by (simp add: 1 2 ok_def)
qed

text \<open>The alert of the example store that is already resolved is resolved twice more.\<close>

theorem resolve_alert_idempotent_witness:
  "''a2'' \<in> fst ` set (alerts example_store) \<and>
   resolved (snd (alerts example_store ! 1)) = Some True \<and>
   rejects example_store (Update ''system_alerts'' ''a2'' True (clock example_env) ''dashboard_user'') = None \<and>
   rejects example_store (Update ''system_alerts'' ''a2'' True (clock (example_env\<lparr>clock := 1700000060000\<rparr>)) ''dashboard_user'') = None \<and>
   (let (r1, w1) = handleResolveAlert example_env ''a2'' example_store;
        (r2, w2) = handleResolveAlert (example_env\<lparr>clock := 1700000060000\<rparr>) ''a2'' w1
    in statusCode r1 = 200 \<and> r2 = r1 \<and>
       map fst (alerts w1) = [''a1'', ''a2''] \<and>
       map (\<lambda>(i, d). resolved d) (alerts w1) = [Some False, Some True] \<and>
       map (\<lambda>(i, d). resolved_at d) (alerts w1) = [None, Some 1700000000000] \<and>
       map (\<lambda>(i, d). resolved_by d) (alerts w1) = [None, Some ''dashboard_user''] \<and>
       map (\<lambda>(i, d). resolved d) (alerts w2) = [Some False, Some True])"
proof -
  have h1: "''a2'' \<in> fst ` set (alerts example_store)" by (simp add: example_store_def)
  have h0: "resolved (snd (alerts example_store ! 1)) = Some True" by (simp add: example_store_def)
  have h2: "rejects example_store (Update ''system_alerts'' ''a2'' True (clock example_env) ''dashboard_user'') = None"
    by (simp add: example_store_def)
  have h3: "rejects example_store (Update ''system_alerts'' ''a2'' True (clock (example_env\<lparr>clock := 1700000060000\<rparr>)) ''dashboard_user'') = None"
    by (simp add: example_store_def)
  have e: "alerts (snd (handleResolveAlert example_env ''a2'' example_store)) =
      [(''a1'', snd (alerts example_store ! 0)),
       (''a2'', (snd (alerts example_store ! 1))\<lparr>resolved := Some True,
          resolved_at := Some 1700000000000, resolved_by := Some ''dashboard_user''\<rparr>)]"
    unfolding handleResolveAlert_ok[OF h1 h2] by (simp add: example_store_def example_env_def)
  have i: "''a2'' \<in> fst ` set (alerts (snd (handleResolveAlert example_env ''a2'' example_store)))"
    unfolding e by simp
  have r: "rejects (snd (handleResolveAlert example_env ''a2'' example_store))
      (Update ''system_alerts'' ''a2'' True (clock (example_env\<lparr>clock := 1700000060000\<rparr>)) ''dashboard_user'') = None"
    unfolding handleResolveAlert_ok[OF h1 h2] by (simp add: example_store_def)
  have e2: "alerts (snd (handleResolveAlert (example_env\<lparr>clock := 1700000060000\<rparr>) ''a2''
        (snd (handleResolveAlert example_env ''a2'' example_store)))) =
      [(''a1'', snd (alerts example_store ! 0)),
       (''a2'', (snd (alerts example_store ! 1))\<lparr>resolved := Some True,
          resolved_at := Some 1700000060000, resolved_by := Some ''dashboard_user''\<rparr>)]"
    unfolding handleResolveAlert_ok[OF i r] unfolding e by simp
  have f: "resolved (snd (alerts example_store ! 0)) = Some False"
    "resolved_at (snd (alerts example_store ! 0)) = None"
    "resolved_by (snd (alerts example_store ! 0)) = None"
    by (simp_all add: example_store_def)
  show ?thesis
    using resolve_alert_idempotent[OF h1 h2 h3] h0 h1 h2 h3 e e2 f
    by (simp add: case_prod_unfold Let_def ok_def)
qed

section \<open>Workflow creation\<close>

text \<open>
  C2. Whatever the request body, the creation handler adds at most one document to the
  workflows, and a document it adds (the one its \<open>add\<close> call carries) has status
  \<open>active\<close>, \<open>completed_today\<close> 0, the time of the call as \<open>created\<close> and
  \<open>dashboard_user\<close> as \<open>created_by\<close>.
\<close>

theorem created_workflow_fixed_fields:
  "\<exists>added. workflows (snd (handleCreateWorkflow e b w)) = workflows w @ added \<and>
     length added \<le> 1 \<and>
     (\<forall>(i, d)\<in>set added.
        wf_status d = Some ''active'' \<and> wf_completed_today d = Some 0 \<and>
        wf_created d = Some (clock e) \<and> wf_created_by d = Some ''dashboard_user'' \<and>
        last (issued (snd (handleCreateWorkflow e b w))) = Add ''workflows'' d)"
proof -
  have f: "wf_status (new_workflow c n d t s) = Some ''active'' \<and>
           wf_completed_today (new_workflow c n d t s) = Some 0 \<and>
           wf_created (new_workflow c n d t s) = Some c \<and>
           wf_created_by (new_workflow c n d t s) = Some ''dashboard_user''" for c n d t s
    by (simp add: new_workflow_def)
  from handleCreateWorkflow_cases[of e b w] show ?thesis
  proof (elim disjE exE)
    fix err assume "handleCreateWorkflow e b w = (failed err, w)"
    then show ?thesis by (intro exI[of _ "[]"]) simp
  next
    fix n d t s m
    assume "handleCreateWorkflow e b w =
      (failed (StoreError m), w\<lparr>issued := issued w @ [Add ''workflows'' (new_workflow (clock e) n d t s)]\<rparr>)"
    then show ?thesis by (intro exI[of _ "[]"]) simp
  next
    fix n d t s
    assume "handleCreateWorkflow e b w =
      (ok [(''workflow_id'', Str (fresh_id e)), (''message'', Str ''Workflow created successfully'')],
       w\<lparr>issued := issued w @ [Add ''workflows'' (new_workflow (clock e) n d t s)],
          workflows := workflows w @ [(fresh_id e, new_workflow (clock e) n d t s)]\<rparr>)"
    then show ?thesis
      by (intro exI[of _ "[(fresh_id e, new_workflow (clock e) n d t s)]"]) (simp add: f)
  qed
qed

text \<open>
  A body that supplies \<open>status\<close>, \<open>completed_today\<close>, \<open>created_by\<close> and \<open>created\<close>
  of its own is stored under its name with the handler's values for the four.
\<close>

theorem created_workflow_fixed_fields_witness:
  "\<exists>d. workflows (snd (handleCreateWorkflow example_env override_body example_store))
          = workflows example_store @ [(''wf1'', d)] \<and>
        wf_name d = Some (JStr ''Nightly sync'') \<and>
        wf_status d = Some ''active'' \<and> wf_completed_today d = Some 0 \<and>
        wf_created d = Some 1700000000000 \<and> wf_created_by d = Some ''dashboard_user''"
proof -
  have "workflows (snd (handleCreateWorkflow example_env override_body example_store))
     = workflows example_store @ [(''wf1'', new_workflow 1700000000000 (Some (JStr ''Nightly sync'')) None None None)]"
    by (simp add: handleCreateWorkflow_def try_catch_def seq_def lift_def ret_def
            add_workflow_def Let_def override_body_def parse_body_def example_env_def example_store_def)
  moreover obtain added where
    "workflows (snd (handleCreateWorkflow example_env override_body example_store)) = workflows example_store @ added"
    "\<forall>(i, d)\<in>set added.
        wf_status d = Some ''active'' \<and> wf_completed_today d = Some 0 \<and>
        wf_created d = Some (clock example_env) \<and> wf_created_by d = Some ''dashboard_user''"
    using created_workflow_fixed_fields[of example_env override_body example_store] by blast
  ultimately show ?thesis
    by (auto simp: example_env_def new_workflow_def or_json_def)
qed

text \<open>
  C8, as amended. A body that is present and fails to parse makes the creation handler
  answer 500 with the parse error, with no call on the store and no workflow created, as it
  makes the command handler answer 500; only an absent or empty body stands for the empty
  object, in both handlers alike.
\<close>

theorem malformed_body_is_an_error:
  "handleCreateWorkflow e Malformed w = (failed SyntaxError, w) \<and>
   handleAgentCommand agentId Malformed w = (failed SyntaxError, w) \<and>
   statusCode (failed SyntaxError) = 500 \<and>
   handleCreateWorkflow e Absent w = handleCreateWorkflow e (Parsed (JObj [])) w \<and>
   handleAgentCommand agentId Absent w = handleAgentCommand agentId (Parsed (JObj [])) w"
  by (simp add: handleCreateWorkflow_def handleAgentCommand_def try_catch_def seq_def lift_def
      parse_body_def failed_def)

text \<open>
  C8 as stated fails: on a body that does not parse the creation handler answers 500,
  calls the store not at all and leaves the workflows of the example store empty.
\<close>

theorem malformed_workflow_body_counterexample:
  "statusCode (fst (handleCreateWorkflow example_env Malformed example_store)) = 500 \<and>
   workflows (snd (handleCreateWorkflow example_env Malformed example_store)) = [] \<and>
   issued (snd (handleCreateWorkflow example_env Malformed example_store)) = []"
  by (simp add: handleCreateWorkflow_def try_catch_def seq_def lift_def
      parse_body_def failed_def example_store_def)

section \<open>Routing\<close>

lemma segments_of_nonempty: "[] \<notin> set (segments_of p)"
  by (simp add: segments_of_def)

lemma loose_matches_iff:
  "loose_matches m segments \<longleftrightarrow>
     (m = ''GET'' \<and> segments = [''agents'']) \<or>
     (m = ''POST'' \<and> seg segments 0 = Some ''agents'' \<and> seg segments 2 = Some ''command'') \<or>
     (m = ''GET'' \<and> seg segments 0 = Some ''leads'' \<and> seg segments 1 = Some ''metrics'') \<or>
     (m = ''GET'' \<and> seg segments 0 = Some ''alerts'' \<and> seg segments 1 = Some ''active'') \<or>
     (m = ''POST'' \<and> seg segments 0 = Some ''alerts'' \<and> seg segments 2 = Some ''resolve'') \<or>
     (m = ''GET'' \<and> seg segments 0 = Some ''workflows'') \<or>
     (m = ''POST'' \<and> seg segments 0 = Some ''workflows'') \<or>
     (m = ''POST'' \<and> seg segments 0 = Some ''roi'' \<and> seg segments 1 = Some ''calculate'')"
proof -
  have f1: "fits [Fixed a] ss \<longleftrightarrow> ss = [a]" for a ss
    by (cases ss; cases "tl ss") auto
  have p1: "length [Fixed a] \<le> length ss \<and> fits [Fixed a] (take (length [Fixed a]) ss) \<longleftrightarrow> seg ss 0 = Some a" for a ss
    by (cases ss) (auto simp: seg_def)
  have f2: "fits [Fixed a, Fixed b] ss \<longleftrightarrow> ss = [a, b]" for a b ss
    by (cases ss; cases "tl ss"; cases "tl (tl ss)") auto
  have p2: "length [Fixed a, Fixed b] \<le> length ss \<and> fits [Fixed a, Fixed b] (take (length [Fixed a, Fixed b]) ss)
      \<longleftrightarrow> seg ss 0 = Some a \<and> seg ss 1 = Some b" for a b ss
    by (cases ss; cases "tl ss") (auto simp: seg_def)
  have f3: "fits [Fixed a, Param, Fixed b] ss \<longleftrightarrow> (\<exists>x. ss = [a, x, b])" for a b ss
    by (cases ss; cases "tl ss"; cases "tl (tl ss)"; cases "tl (tl (tl ss))") auto
  have p3: "length [Fixed a, Param, Fixed b] \<le> length ss \<and>
      fits [Fixed a, Param, Fixed b] (take (length [Fixed a, Param, Fixed b]) ss)
      \<longleftrightarrow> seg ss 0 = Some a \<and> seg ss 2 = Some b" for a b ss
    by (cases ss; cases "tl ss"; cases "tl (tl ss)") (auto simp: seg_def)
  have skel: "(A1 \<or> A2 \<or> A3 \<or> A4 \<or> A5 \<or> A6 \<or> A7 \<or> A8 \<or> False) \<or> (B2 \<or> B3 \<or> B4 \<or> B5 \<or> B6 \<or> B7 \<or> B8 \<or> False)
     \<longleftrightarrow> A1 \<or> B2 \<or> B3 \<or> B4 \<or> B5 \<or> B6 \<or> B7 \<or> B8"
    if "A2 \<longrightarrow> B2" "A3 \<longrightarrow> B3" "A4 \<longrightarrow> B4" "A5 \<longrightarrow> B5" "A6 \<longrightarrow> B6" "A7 \<longrightarrow> B7" "A8 \<longrightarrow> B8"
    for A1 A2 A3 A4 A5 A6 A7 A8 B2 B3 B4 B5 B6 B7 B8
    using that by blast
  show ?thesis
    unfolding loose_matches_def spec_matches_def spec_route_table_def list.sel
      list_ex_Cons_iff list_ex_Nil_iff prod.case
    unfolding p1 p2 p3
    unfolding f1 f2 f3
  proof (rule skel)
    show "m = ''POST'' \<and> (\<exists>x. segments = [''agents'', x, ''command'']) \<longrightarrow>
      m = ''POST'' \<and> seg segments 0 = Some ''agents'' \<and> seg segments 2 = Some ''command''"
      by (auto simp: seg_def)
    show "m = ''GET'' \<and> segments = [''leads'', ''metrics''] \<longrightarrow>
      m = ''GET'' \<and> seg segments 0 = Some ''leads'' \<and> seg segments 1 = Some ''metrics''"
      by (auto simp: seg_def)
    show "m = ''GET'' \<and> segments = [''alerts'', ''active''] \<longrightarrow>
      m = ''GET'' \<and> seg segments 0 = Some ''alerts'' \<and> seg segments 1 = Some ''active''"
      by (auto simp: seg_def)
    show "m = ''POST'' \<and> (\<exists>x. segments = [''alerts'', x, ''resolve'']) \<longrightarrow>
      m = ''POST'' \<and> seg segments 0 = Some ''alerts'' \<and> seg segments 2 = Some ''resolve''"
      by (auto simp: seg_def)
    show "m = ''GET'' \<and> segments = [''workflows''] \<longrightarrow>
      m = ''GET'' \<and> seg segments 0 = Some ''workflows''"
      by (auto simp: seg_def)
    show "m = ''POST'' \<and> segments = [''workflows''] \<longrightarrow>
      m = ''POST'' \<and> seg segments 0 = Some ''workflows''"
      by (auto simp: seg_def)
    show "m = ''POST'' \<and> segments = [''roi'', ''calculate''] \<longrightarrow>
      m = ''POST'' \<and> seg segments 0 = Some ''roi'' \<and> seg segments 1 = Some ''calculate''"
      by (auto simp: seg_def)
  qed
qed


lemma select_NoRoute_iff:
  assumes "[] \<notin> set segments"
  shows "select m segments = NoRoute \<longleftrightarrow> \<not> loose_matches m segments"
proof -
  have g: "seg segments 0 = Some a \<and> (seg segments 1 = None \<or> seg segments 1 = Some []) \<longleftrightarrow>
           segments = [a]" for a
    using assms by (cases segments; cases "tl segments") (auto simp: seg_def)
  have skel: "(if c1 then GetAgents else if c2 then AgentCommand x else if c3 then GetLeadMetrics
      else if c4 then GetAlerts else if c5 then ResolveAlert y else if c6 then GetWorkflows
      else if c7 then CreateWorkflow else if c8 then CalculateROI else NoRoute) = NoRoute
      \<longleftrightarrow> \<not> (c1 \<or> c2 \<or> c3 \<or> c4 \<or> c5 \<or> c6 \<or> c7 \<or> c8)"
    for c1 c2 c3 c4 c5 c6 c7 c8 x y
    by simp
  have c1: "(m = ''GET'' \<and> seg segments 0 = Some ''agents'' \<and>
         (seg segments 1 = None \<or> seg segments 1 = Some [])) \<longleftrightarrow>
        (m = ''GET'' \<and> segments = [''agents''])"
    by (simp only: g)
  show ?thesis
    unfolding select_def skel loose_matches_iff c1 ..
qed


lemma try_catch_status: "statusCode (fst (try_catch p w)) = 200 \<or> statusCode (fst (try_catch p w)) = 500"
  by (cases "p w") (auto simp: try_catch_def ok_def failed_def split: sum.split)

lemma handled_status:
  assumes "httpMethod ev \<noteq> ''OPTIONS''"
    and "select (httpMethod ev) (segments_of (path ev)) \<noteq> NoRoute"
  shows "statusCode (fst (handler e ev w)) \<noteq> 404"
proof -
  have n: "statusCode (fst (try_catch p w)) \<noteq> 404" for p :: "(string \<times> out) list prog" and w
    using try_catch_status[of p w] by auto
  show ?thesis
    using assms
    by (cases "select (httpMethod ev) (segments_of (path ev))")
       (simp_all add: handler_def handleGetAgents_def handleAgentCommand_def
          handleGetLeadMetrics_def handleGetAlerts_def handleResolveAlert_def
          handleGetWorkflows_def handleCreateWorkflow_def handleCalculateROI_def Let_def n)
qed

text \<open>
  C5, as amended. A request other than OPTIONS is answered with 404 and the body
  \<open>{"error": "Endpoint not found"}\<close>, with no handler run and no call on the store (the
  store and its log are as before), exactly when its method and segments match no entry of
  the route table read loosely: every entry but \<open>GET /agents\<close> also matches a path that
  goes on after its pattern. Every request that matches the table as written matches it
  read loosely. A path that is empty after the prefix is among the unmatched.
\<close>

theorem unmatched_request_not_found:
  assumes "httpMethod ev \<noteq> ''OPTIONS''"
  shows "(\<not> loose_matches (httpMethod ev) (segments_of (path ev)) \<longrightarrow>
            handler e ev w =
              (\<lparr>statusCode = 404, headers = cors,
                body = Json (Object [(''error'', Str ''Endpoint not found'')])\<rparr>, w)) \<and>
         (loose_matches (httpMethod ev) (segments_of (path ev)) \<longrightarrow>
            statusCode (fst (handler e ev w)) \<noteq> 404) \<and>
         (spec_matches (httpMethod ev) (segments_of (path ev)) \<longrightarrow>
            loose_matches (httpMethod ev) (segments_of (path ev)))"
proof (intro conjI impI)
  assume "\<not> loose_matches (httpMethod ev) (segments_of (path ev))"
  then have "select (httpMethod ev) (segments_of (path ev)) = NoRoute"
    by (simp add: select_NoRoute_iff[OF segments_of_nonempty])
  then show "handler e ev w =
              (\<lparr>statusCode = 404, headers = cors,
                body = Json (Object [(''error'', Str ''Endpoint not found'')])\<rparr>, w)"
    using assms by (simp add: handler_def)
next
  assume "loose_matches (httpMethod ev) (segments_of (path ev))"
  then have "select (httpMethod ev) (segments_of (path ev)) \<noteq> NoRoute"
    by (simp add: select_NoRoute_iff[OF segments_of_nonempty])
  then show "statusCode (fst (handler e ev w)) \<noteq> 404"
    using assms by (rule handled_status[rotated])
next
  assume "spec_matches (httpMethod ev) (segments_of (path ev))"
  then show "loose_matches (httpMethod ev) (segments_of (path ev))"
    by (simp add: loose_matches_def)
qed

lemma segments_empty_path: "segments_of (path empty_path_event) = []"
  by (simp add: empty_path_event_def segments_of_def)

lemma segments_trailing: "segments_of (path trailing_segment_event) = [''workflows'', ''extra'']"
  by (simp add: trailing_segment_event_def segments_of_def)

text \<open>The request with the empty path is answered with 404, the example store untouched.\<close>

theorem unmatched_request_not_found_witness:
  "httpMethod empty_path_event \<noteq> ''OPTIONS'' \<and>
   \<not> loose_matches (httpMethod empty_path_event) (segments_of (path empty_path_event)) \<and>
   handler example_env empty_path_event example_store =
     (\<lparr>statusCode = 404, headers = cors,
       body = Json (Object [(''error'', Str ''Endpoint not found'')])\<rparr>, example_store)"
proof -
  have h1: "httpMethod empty_path_event \<noteq> ''OPTIONS''" by (simp add: empty_path_event_def)
  have h2: "\<not> loose_matches (httpMethod empty_path_event) (segments_of (path empty_path_event))"
    unfolding segments_empty_path
    by (simp add: loose_matches_def spec_matches_def spec_route_table_def empty_path_event_def)
  from unmatched_request_not_found[OF h1, of example_env example_store] h1 h2
  show ?thesis by blast
qed

text \<open>
  C5 as stated fails: \<open>GET /workflows/extra\<close> matches no entry of the route table, and
  the router answers it with 200 after a call on the store, as it answers
  \<open>GET /workflows\<close>.
\<close>

theorem trailing_segment_counterexample:
  "httpMethod trailing_segment_event \<noteq> ''OPTIONS'' \<and>
   \<not> spec_matches (httpMethod trailing_segment_event) (segments_of (path trailing_segment_event)) \<and>
   statusCode (fst (handler example_env trailing_segment_event example_store)) = 200 \<and>
   issued (snd (handler example_env trailing_segment_event example_store)) = [Query ''workflows'' []]"
proof -
  have 1: "httpMethod trailing_segment_event = ''GET''" by (simp add: trailing_segment_event_def)
  have 2: "select ''GET'' [''workflows'', ''extra''] = GetWorkflows"
    by (simp add: select_def seg_def)
  have 3: "\<not> spec_matches ''GET'' [''workflows'', ''extra'']"
    by (simp add: spec_matches_def spec_route_table_def)
  show ?thesis
    unfolding segments_trailing 1 using 2 3
    by (simp add: handler_def segments_trailing 1 handleGetWorkflows_def try_catch_def seq_def ret_def
        get_workflows_def store_read_def Let_def example_store_def ok_def)
qed

section \<open>Return on investment\<close>

lemma roi_time_saved: "js_mul 50000 (fl (83 / 1000)) = 4150"
  by code_simp

lemma roi_fallback_rate: "toFixed1 (js_mul (fl (3 / 20)) 100) = ''15.0''"
  by code_simp

lemma js_mul_int:
  assumes "\<bar>a * b\<bar> < 2 ^ 53"
  shows "js_mul (of_int a) (of_int b) = of_int (a * b)"
  using fl_of_int[OF assms] by (simp add: js_mul_def)

lemma js_add_int:
  assumes "\<bar>a + b\<bar> < 2 ^ 53"
  shows "js_add (of_int a) (of_int b) = of_int (a + b)"
  using fl_of_int[OF assms] by (simp add: js_add_def)

lemma Math_round_int: "Math_round (of_int n) = n"
  unfolding Math_round_def by linarith

lemma toFixed1_tenths:
  assumes "n < 2 ^ 50"
  shows "toFixed1 (js_div (of_nat n) 10) = decimal1 n"
proof (cases "n = 0")
  case True
  then show ?thesis by (simp add: js_div_def fl_0 toFixed1_def)
next
  case False
  define v :: rat where "v = of_nat n"
  define x where "x = fl (v / 10)"
  have "(of_nat 1 :: rat) \<le> of_nat n" using False by (simp only: of_nat_le_iff)
  then have v1: "1 \<le> v" unfolding v_def by simp
  have "(of_nat n :: rat) < of_nat (2 ^ 50)" using assms by (simp only: of_nat_less_iff)
  then have v2: "v < 1125899906842624" unfolding v_def by simp
  have "1 / 2 ^ 60 \<le> v / 10" using v1 by simp
  note b = fl_pos[OF this, folded x_def]
  have x0: "0 \<le> x" using b(1) v1 by simp
  have "\<lfloor>x * 10 + 1 / 2\<rfloor> = int n"
  proof (rule floor_unique)
    show "of_int (int n) \<le> x * 10 + 1 / 2" using b(1) v1 v2 unfolding v_def by simp
    show "x * 10 + 1 / 2 < of_int (int n) + 1" using b(2) v1 v2 unfolding v_def by simp
  qed
  then show ?thesis using x0 unfolding x_def v_def js_div_def by (simp add: toFixed1_nonneg)
qed

lemma handleCalculateROI_ok:
  assumes "accepts w roi_queries"
  shows "handleCalculateROI w =
    (let agentsCount = length (agents w);
         totalLeads = length (leads w);
         convertedLeads = converted_leads w;
         timesSavedHours = js_mul 50000 (fl (83 / 1000));
         annualTimeSavings = js_mul (js_mul timesSavedHours 75) 12;
         conversionRate = (if 0 < totalLeads
                           then js_div (of_nat convertedLeads) (of_nat totalLeads)
                           else fl (15 / 100));
         annualLeadRevenue = js_mul (js_mul (of_nat convertedLeads) 5000) 12;
         totalROI = js_add annualTimeSavings annualLeadRevenue
     in (ok [(''roi'', Object
              [(''agents_deployed'', Num (of_nat agentsCount)),
               (''total_leads_processed'', Num (of_nat totalLeads)),
               (''leads_converted'', Num (of_nat convertedLeads)),
               (''conversion_rate'', Str (toFixed1 (js_mul conversionRate 100))),
               (''time_saved_hours_annual'', Num (of_int (Math_round (js_mul timesSavedHours 12)))),
               (''cost_savings_annual'', Num (of_int (Math_round annualTimeSavings))),
               (''revenue_from_leads_annual'', Num (of_int (Math_round annualLeadRevenue))),
               (''total_roi_annual'', Num (of_int (Math_round totalROI))),
               (''roi_multiple'', Str (toFixed1 (js_div totalROI 50000)))])],
         w\<lparr>issued := issued w @ roi_queries\<rparr>))"
  using assms
  by (simp add: handleCalculateROI_def try_catch_def seq_def ret_def get_agents_def get_leads_def
      leads_with_status_def store_read_def roi_queries_def converted_leads_def Let_def
      accepts_def)

lemma roi_figures:
  assumes "c < 2 ^ 32"
  shows "js_mul (js_mul (js_mul 50000 (fl (83 / 1000))) 75) 12 = 3735000"
    and "js_mul (js_mul 50000 (fl (83 / 1000))) 12 = 49800"
    and "js_mul (js_mul (of_nat c) 5000) 12 = of_nat (60000 * c)"
    and "js_add 3735000 (of_nat (60000 * c)) = of_nat (3735000 + 60000 * c)"
    and "toFixed1 (js_div (of_nat (3735000 + 60000 * c)) 50000) = decimal1 (747 + 12 * c)"
proof -
  have ci: "int c < 2 ^ 32" using assms by simp
  have 1: "js_mul 4150 75 = 311250" using js_mul_int[of 4150 75] by simp
  have 2: "js_mul 311250 12 = 3735000" using js_mul_int[of 311250 12] by simp
  show "js_mul (js_mul (js_mul 50000 (fl (83 / 1000))) 75) 12 = 3735000"
    by (simp only: roi_time_saved 1 2)
  show "js_mul (js_mul 50000 (fl (83 / 1000))) 12 = 49800"
    using js_mul_int[of 4150 12] by (simp add: roi_time_saved)
  have 3: "js_mul (of_nat c) 5000 = of_nat (5000 * c)"
    using js_mul_int[of "int c" 5000] ci by (simp add: mult.commute)
  have 4: "js_mul (of_nat (5000 * c)) 12 = of_nat (60000 * c)"
    using js_mul_int[of "int (5000 * c)" 12] ci by (simp add: mult.commute)
  show "js_mul (js_mul (of_nat c) 5000) 12 = of_nat (60000 * c)"
    by (simp only: 3 4)
  show "js_add 3735000 (of_nat (60000 * c)) = of_nat (3735000 + 60000 * c)"
    using js_add_int[of 3735000 "int (60000 * c)"] ci by simp
  have e: "(of_nat (3735000 + 60000 * c) :: rat) / 50000 = of_nat (747 + 12 * c) / 10"
    by simp
  have "747 + 12 * c < 2 ^ 50" using assms by simp
  then show "toFixed1 (js_div (of_nat (3735000 + 60000 * c)) 50000) = decimal1 (747 + 12 * c)"
    unfolding js_div_def e by (rule toFixed1_tenths[unfolded js_div_def])
qed

lemma floor_tenths: "\<lfloor>(of_int n :: rat) / 10 * 10 + 1 / 2\<rfloor> = n"
proof -
  have "(of_int n :: rat) / 10 * 10 + 1 / 2 = of_int n + 1 / 2" by simp
  then show ?thesis by linarith
qed

lemma toFixed1_exact_tenths: "toFixed1 (of_int (int n) / 10) = decimal1 n"
proof -
  have a: "\<bar>(of_int (int n) :: rat) / 10\<bar> = of_int (int n) / 10" by simp
  have b: "\<not> (of_int (int n) :: rat) / 10 < 0" by simp
  show ?thesis unfolding toFixed1_def a floor_tenths using b by simp
qed

lemma handleCalculateROI_figures:
  assumes "accepts w roi_queries"
    and "length (leads w) < 2 ^ 32"
  shows "fst (handleCalculateROI w) =
    ok [(''roi'', Object
          [(''agents_deployed'', Num (of_nat (length (agents w)))),
           (''total_leads_processed'', Num (of_nat (length (leads w)))),
           (''leads_converted'', Num (of_nat (converted_leads w))),
           (''conversion_rate'', Str (toFixed1 (js_mul
               (if 0 < length (leads w)
                then js_div (of_nat (converted_leads w)) (of_nat (length (leads w)))
                else fl (15 / 100)) 100))),
           (''time_saved_hours_annual'', Num 49800),
           (''cost_savings_annual'', Num 3735000),
           (''revenue_from_leads_annual'', Num (of_nat (60000 * converted_leads w))),
           (''total_roi_annual'', Num (of_nat (3735000 + 60000 * converted_leads w))),
           (''roi_multiple'', Str (decimal1 (747 + 12 * converted_leads w)))])]"
proof -
  define c where "c = converted_leads w"
  have "c \<le> length (leads w)" unfolding c_def converted_leads_def by (rule length_filter_le)
  then have c: "c < 2 ^ 32" using assms(2) by simp
  note f = roi_figures[OF c]
  have m: "Math_round (of_nat k) = int k" for k
    using Math_round_int[of "int k"] by simp
  have m2: "Math_round 3735000 = 3735000" "Math_round 49800 = 49800"
    using Math_round_int[of 3735000] Math_round_int[of 49800] by simp_all
  show ?thesis
    unfolding handleCalculateROI_ok[OF assms(1)] c_def[symmetric] Let_def f m m2
    by simp
qed

text \<open>
  C7. With the exact products and sums of the constants in place of the rounded ones: the
  annual cost savings are \<open>round (50000 * 0.083 * 75 * 12)\<close>, the annual lead revenue is
  \<open>round (convertedLeads * 5000 * 12)\<close>, the hours saved are
  \<open>round (50000 * 0.083 * 12)\<close>, the total is the rounded sum of savings and revenue and
  the multiple is that sum over 50000 with one digit after the point. The figures are the
  same for every collection of agents, whatever their metrics.
\<close>

theorem roi_fixed_formulas:
  assumes "accepts w roi_queries"
    and "length (leads w) < 2 ^ 32"
  shows "(let convertedLeads = of_nat (converted_leads w) :: rat;
              saved = 50000 * (83 / 1000);
              cost = saved * 75 * 12;
              revenue = convertedLeads * 5000 * 12;
              r = fst (handleCalculateROI (w\<lparr>agents := any_agents\<rparr>))
          in body_field2 ''roi'' ''cost_savings_annual'' r = Some (Num (of_int (Math_round cost))) \<and>
             body_field2 ''roi'' ''revenue_from_leads_annual'' r = Some (Num (of_int (Math_round revenue))) \<and>
             body_field2 ''roi'' ''time_saved_hours_annual'' r = Some (Num (of_int (Math_round (saved * 12)))) \<and>
             body_field2 ''roi'' ''total_roi_annual'' r = Some (Num (of_int (Math_round (cost + revenue)))) \<and>
             body_field2 ''roi'' ''roi_multiple'' r = Some (Str (toFixed1 ((cost + revenue) / 50000))) \<and>
             cost = 3735000 \<and> saved * 12 = 49800)"
proof -
  define c where "c = converted_leads w"
  define w' where "w' = w\<lparr>agents := any_agents\<rparr>"
  have h1: "accepts w' roi_queries" using assms(1) unfolding w'_def by (simp add: accepts_def)
  have h2: "length (leads w') < 2 ^ 32" using assms(2) unfolding w'_def by simp
  have c': "converted_leads w' = c" unfolding w'_def c_def converted_leads_def by simp
  have s1: "(50000 * (83 / 1000) * 75 * 12 :: rat) = of_int 3735000" by simp
  have s2: "(of_nat c * 5000 * 12 :: rat) = of_int (int (60000 * c))" by simp
  have s3: "(50000 * (83 / 1000) * 12 :: rat) = of_int 49800" by simp
  have s4: "(of_int 3735000 + of_int (int (60000 * c)) :: rat) = of_int (int (3735000 + 60000 * c))"
    by simp
  have s5: "(of_int (int (3735000 + 60000 * c)) / 50000 :: rat) = of_int (int (747 + 12 * c)) / 10"
    by simp
  show ?thesis
    unfolding w'_def[symmetric] handleCalculateROI_figures[OF h1 h2] c' c_def[symmetric] Let_def
      s1 s2 s3 s4 s5 Math_round_int toFixed1_exact_tenths
    by (simp add: body_field2_def body_field_def ok_def)
qed

lemma example_roi_queries: "accepts example_store roi_queries"
  by (simp add: example_store_def accepts_def lead_queries_def roi_queries_def)

lemma example_converted: "converted_leads example_store = 1"
  by (simp add: converted_leads_def example_store_def)

text \<open>With one converted lead the total is 3795000 and the multiple 75.9.\<close>

theorem roi_fixed_formulas_witness:
  "accepts example_store roi_queries \<and>
   length (leads example_store) < 2 ^ 32 \<and>
   (let r = fst (handleCalculateROI (example_store\<lparr>agents := []\<rparr>))
    in body_field2 ''roi'' ''cost_savings_annual'' r = Some (Num 3735000) \<and>
       body_field2 ''roi'' ''revenue_from_leads_annual'' r = Some (Num 60000) \<and>
       body_field2 ''roi'' ''time_saved_hours_annual'' r = Some (Num 49800) \<and>
       body_field2 ''roi'' ''total_roi_annual'' r = Some (Num 3795000) \<and>
       body_field2 ''roi'' ''roi_multiple'' r = Some (Str ''75.9''))"
proof -
  have h2: "length (leads example_store) < 2 ^ 32" by (simp add: example_store_def)
  have r: "toFixed1 (759 / 10) = ''75.9''" by code_simp
  have m: "Math_round 3735000 = 3735000" "Math_round 60000 = 60000" "Math_round 49800 = 49800"
    "Math_round 3795000 = 3795000"
    using Math_round_int[of 3735000] Math_round_int[of 60000] Math_round_int[of 49800]
      Math_round_int[of 3795000]
    by simp_all
  show ?thesis
    using example_roi_queries h2 roi_fixed_formulas[OF example_roi_queries h2, of "[]"]
    by (simp add: example_converted Let_def r m)
qed

text \<open>
  C10. With no lead in the store the ROI handler reports the conversion rate \<open>15.0\<close>,
  from its fallback 0.15, where the lead metrics handler reports \<open>0.0\<close>.
\<close>

theorem roi_rate_without_leads:
  assumes "leads w = []"
    and "accepts w roi_queries"
    and "accepts w (lead_queries (setHours0 (zone e) (clock e)))"
  shows "body_field2 ''roi'' ''conversion_rate'' (fst (handleCalculateROI w)) = Some (Str ''15.0'') \<and>
         body_field2 ''metrics'' ''conversionRate'' (fst (handleGetLeadMetrics e w)) = Some (Str ''0.0'')"
proof -
  have "length (leads w) < 2 ^ 32" using assms(1) by simp
  note f = handleCalculateROI_figures[OF assms(2) this]
  have z: "toFixed1 0 = ''0.0''" by (simp add: toFixed1_def decimal1_0)
  show ?thesis
    unfolding f handleGetLeadMetrics_ok[OF assms(3)]
    using assms(1)
    by (simp add: body_field2_def body_field_def ok_def roi_fallback_rate conversion_rate_def z)
qed

text \<open>The example store with its leads removed.\<close>

theorem roi_rate_without_leads_witness:
  "leads (example_store\<lparr>leads := []\<rparr>) = [] \<and>
   accepts (example_store\<lparr>leads := []\<rparr>) roi_queries \<and>
   accepts (example_store\<lparr>leads := []\<rparr>) (lead_queries (setHours0 (zone example_env) (clock example_env))) \<and>
   body_field2 ''roi'' ''conversion_rate'' (fst (handleCalculateROI (example_store\<lparr>leads := []\<rparr>)))
     = Some (Str ''15.0'') \<and>
   body_field2 ''metrics'' ''conversionRate''
     (fst (handleGetLeadMetrics example_env (example_store\<lparr>leads := []\<rparr>))) = Some (Str ''0.0'')"
proof -
  have h1: "leads (example_store\<lparr>leads := []\<rparr>) = []" by simp
  have h2: "accepts (example_store\<lparr>leads := []\<rparr>) roi_queries"
    by (simp add: example_store_def accepts_def lead_queries_def roi_queries_def)
  have h3: "accepts (example_store\<lparr>leads := []\<rparr>) (lead_queries (setHours0 (zone example_env) (clock example_env)))"
    by (simp add: example_store_def accepts_def lead_queries_def roi_queries_def)
  from roi_rate_without_leads[OF h1 h2 h3] h1 h2 h3 show ?thesis by blast
qed

end
